theory Spec2Isabelle
  imports Main
begin

section \<open>Subscription management of a TAXII server\<close>

text \<open>
  A shallow embedding of \<^verbatim>\<open>opentaxii/taxii/services/handlers/subscription_request_handlers.py\<close>:
  the five action functions, the dispatch table \<^verbatim>\<open>ACTIONS\<close> and the two version handlers.
  An exception of the source is the \<open>Inl\<close> branch of a sum; the service object the
  handlers talk to is a record that is passed in and returned, and that remembers every
  call made to it.
\<close>

subsection \<open>Constants of libtaxii\<close>

text \<open>
  Modelled from the spec: the action names, the legal action sets of the two protocol
  versions, the status codes and the detail keys are imported from
  \<^verbatim>\<open>libtaxii.constants\<close>, a library outside the repository. There are five actions,
  of which version 10 lacks PAUSE and RESUME. An action is a string on the wire, so a
  request can carry a name outside both sets.
\<close>

definition ACT_SUBSCRIBE :: string where "ACT_SUBSCRIBE = ''SUBSCRIBE''"
definition ACT_UNSUBSCRIBE :: string where "ACT_UNSUBSCRIBE = ''UNSUBSCRIBE''"
definition ACT_PAUSE :: string where "ACT_PAUSE = ''PAUSE''"
definition ACT_RESUME :: string where "ACT_RESUME = ''RESUME''"
definition ACT_STATUS :: string where "ACT_STATUS = ''STATUS''"

definition ACT_TYPES_11 :: "string list" where
  "ACT_TYPES_11 = [ACT_SUBSCRIBE, ACT_PAUSE, ACT_RESUME, ACT_UNSUBSCRIBE, ACT_STATUS]"

definition ACT_TYPES_10 :: "string list" where
  "ACT_TYPES_10 = [ACT_SUBSCRIBE, ACT_UNSUBSCRIBE, ACT_STATUS]"

datatype status_type = ST_BAD_MESSAGE | ST_NOT_FOUND | ST_UNSUPPORTED_CONTENT_BINDING

datatype detail_key = SD_ITEM | SD_SUPPORTED_CONTENT

subsection \<open>Values, exceptions\<close>

text \<open>The values a status detail holds: Python's \<^verbatim>\<open>None\<close>, a string or a list of strings.\<close>

datatype detail_value = DNone | DStr string | DList "string list"

fun opt_value :: "string option \<Rightarrow> detail_value" where
  "opt_value None = DNone"
| "opt_value (Some s) = DStr s"

text \<open>
  Modelled from the spec: the class \<^verbatim>\<open>StatusMessageException\<close> is declared outside the
  handler module. It carries what the handlers give it,
  \<^verbatim>\<open>StatusMessageException(status_type, message=, in_response_to=, status_details=)\<close>: a
  status code, an optional message, the id of the request it answers and an optional
  detail map. \<open>AttributeError\<close> is what reading an attribute of \<^verbatim>\<open>None\<close> raises,
  \<open>KeyError\<close> what a lookup of a missing key in \<^verbatim>\<open>ACTIONS\<close> raises.
\<close>

datatype failure =
    StatusMessageException
      (exc_status_type: status_type)
      (exc_message: "string option")
      (exc_in_response_to: string)
      (exc_status_details: "(detail_key \<times> detail_value) list option")
  | AttributeError
  | KeyError

text \<open>Python's truth value of an optional string: \<^verbatim>\<open>None\<close> and the empty string are false.\<close>

fun truthy :: "string option \<Rightarrow> bool" where
  "truthy None = False"
| "truthy (Some s) = (s \<noteq> [])"

subsection \<open>Entities\<close>

datatype subscription_status = ACTIVE | PAUSED | UNSUBSCRIBED

text \<open>
  Modelled from the spec: the entity classes are declared outside the handler module.
  \<^verbatim>\<open>PollRequestParametersEntity(response_type, content_bindings)\<close>: the response type
  (version 11 only) and the list of accepted content bindings, a binding being its
  identifier.
\<close>

record poll_request_params =
  prp_response_type :: "string option"
  prp_content_bindings :: "string list"

text \<open>
  Modelled from the spec:
  \<^verbatim>\<open>SubscriptionEntity(collection_id, subscription_id, status, poll_request_params)\<close>, with
  status one of ACTIVE, PAUSED, UNSUBSCRIBED. A keyword that is not given is \<^verbatim>\<open>None\<close>;
  the attribute \<^verbatim>\<open>params\<close> holds the poll request parameters.
\<close>

record subscription =
  sub_collection_id :: "nat option"
  sub_subscription_id :: "string option"
  sub_status :: subscription_status
  sub_params :: "poll_request_params option"

text \<open>
  Modelled from the spec: a collection has an identity, a name and the list of content
  bindings it supports.
\<close>

record collection =
  coll_id :: nat
  coll_name :: string
  coll_supported_content :: "string list"

text \<open>
  Modelled from the spec: a polling service is what the response embeds of it, one
  address per protocol binding.
\<close>

type_synonym polling_service = "(string \<times> string) list"

subsection \<open>Requests and responses\<close>

text \<open>
  Modelled from the spec: the message classes belong to libtaxii. A request has a
  message id, an action, an optional subscription id and the name of its collection
  (version 11) or feed (version 10); a version-11 request also has subscription
  parameters, a response type and a list of content bindings. First the attributes both
  request messages have, then the two wire shapes:
  \<^verbatim>\<open>tm11.ManageCollectionSubscriptionRequest\<close> and \<^verbatim>\<open>tm10.ManageFeedSubscriptionRequest\<close>.
\<close>

record subscription_parameters =
  sp_response_type :: string
  sp_content_bindings :: "string list"

record request =
  message_id :: string
  action :: string
  subscription_id :: "string option"

record request11 = request +
  collection_name :: string
  subscription_parameters :: subscription_parameters

record request10 = request +
  feed_name :: string

datatype tm_request =
    ManageCollectionSubscriptionRequest request11
  | ManageFeedSubscriptionRequest request10

text \<open>\<^verbatim>\<open>request.subscription_id\<close>, which both request messages have.\<close>

fun request_subscription_id :: "tm_request \<Rightarrow> string option" where
  "request_subscription_id (ManageCollectionSubscriptionRequest r) = subscription_id r"
| "request_subscription_id (ManageFeedSubscriptionRequest r) = subscription_id r"

text \<open>
  Modelled from the spec: a subscription instance of the response has a subscription id,
  a status (version 11 only), subscription parameters (version 11 only) and a list of
  poll descriptors, each a protocol binding with an address.
\<close>

record subscription_instance =
  inst_subscription_id :: "string option"
  inst_status :: "subscription_status option"
  inst_subscription_parameters :: "poll_request_params option"
  inst_poll_instances :: "(string \<times> string) list"

text \<open>
  Modelled from the spec: the responses \<^verbatim>\<open>tm11.ManageCollectionSubscriptionResponse\<close>
  and \<^verbatim>\<open>tm10.ManageFeedSubscriptionResponse\<close>, with the fields the handlers set.
\<close>

record response11 =
  resp11_message_id :: string
  resp11_in_response_to :: string
  resp11_collection_name :: string
  resp11_message :: "string option"
  resp11_subscription_instances :: "subscription_instance list"

record response10 =
  resp10_message_id :: string
  resp10_in_response_to :: string
  resp10_feed_name :: string
  resp10_message :: "string option"
  resp10_subscription_instances :: "subscription_instance list"

subsection \<open>The service and its store\<close>

text \<open>Every call a handler makes to the service's store or registry.\<close>

datatype store_call =
    GetCollection string
  | GetSubscription string
  | GetSubscriptions
  | UpdateSubscription "string option" subscription_status
  | CreateSubscription subscription
  | GetPollingServices nat

text \<open>
  The service: its collections, the stored subscriptions in store order, the polling
  services of each collection, the banner message, the store's way of naming a new
  subscription, and the calls made so far (oldest first).
\<close>

record service =
  collections :: "collection list"
  subscriptions :: "subscription list"
  polling :: "nat \<Rightarrow> polling_service list"
  subscription_message :: "string option"
  assign_id :: "subscription list \<Rightarrow> string"
  calls :: "store_call list"

definition called :: "service \<Rightarrow> store_call \<Rightarrow> service" where
  "called svc c = svc\<lparr>calls := calls svc @ [c]\<rparr>"

text \<open>
  The methods of the service class are not part of the handler module; each is modelled
  from what the spec says of the store, and records its call.
\<close>

text \<open>
  Modelled from the spec: \<^verbatim>\<open>service.get_collection(name)\<close> is a pure lookup of the
  collection by name, \<^verbatim>\<open>None\<close> when there is none.
\<close>

definition get_collection :: "service \<Rightarrow> string \<Rightarrow> collection option \<times> service" where
  "get_collection svc name =
     (find (\<lambda>c. coll_name c = name) (collections svc), called svc (GetCollection name))"

text \<open>
  Modelled from the spec: \<^verbatim>\<open>service.get_subscription(id)\<close> is a pure lookup of the
  stored subscription by id, \<^verbatim>\<open>None\<close> when there is none.
\<close>

definition get_subscription :: "service \<Rightarrow> string \<Rightarrow> subscription option \<times> service" where
  "get_subscription svc sid =
     (find (\<lambda>s. sub_subscription_id s = Some sid) (subscriptions svc),
      called svc (GetSubscription sid))"

text \<open>
  Modelled from the spec: \<^verbatim>\<open>service.get_subscriptions()\<close> returns all subscriptions
  known for the service, in store order.
\<close>

definition get_subscriptions :: "service \<Rightarrow> subscription list \<times> service" where
  "get_subscriptions svc = (subscriptions svc, called svc GetSubscriptions)"

text \<open>
  Modelled from the spec: \<^verbatim>\<open>service.update_subscription(subscription, new_status)\<close> sets
  the status, persists it in the stored record of the same id and returns the
  subscription.
\<close>

definition update_subscription ::
  "service \<Rightarrow> subscription \<Rightarrow> subscription_status \<Rightarrow> subscription \<times> service" where
  "update_subscription svc sub new_status =
     (let sub' = sub\<lparr>sub_status := new_status\<rparr>
      in (sub',
          called
            (svc\<lparr>subscriptions :=
                   map (\<lambda>s. if sub_subscription_id s = sub_subscription_id sub' then sub' else s)
                     (subscriptions svc)\<rparr>)
            (UpdateSubscription (sub_subscription_id sub) new_status)))"

text \<open>
  Modelled from the spec: \<^verbatim>\<open>service.create_subscription(subscription)\<close> persists a new
  record, to which the store assigns the id, and returns it.
\<close>

definition create_subscription :: "service \<Rightarrow> subscription \<Rightarrow> subscription \<times> service" where
  "create_subscription svc sub =
     (let sub' = sub\<lparr>sub_subscription_id := Some (assign_id svc (subscriptions svc))\<rparr>
      in (sub',
          called (svc\<lparr>subscriptions := subscriptions svc @ [sub']\<rparr>) (CreateSubscription sub')))"

text \<open>
  Modelled from the spec: \<^verbatim>\<open>service.get_polling_services(collection)\<close> is the list of
  polling services that reach the collection.
\<close>

definition get_polling_services :: "service \<Rightarrow> collection \<Rightarrow> polling_service list \<times> service" where
  "get_polling_services svc coll =
     (polling svc (coll_id coll), called svc (GetPollingServices (coll_id coll)))"

text \<open>
  The converters and the collection's content methods are not part of the handler module
  either.
\<close>

text \<open>
  Modelled from the spec: \<^verbatim>\<open>parse_content_bindings\<close> turns the raw bindings of the
  request into content bindings, one for each; a binding is its identifier.
\<close>

definition parse_content_bindings :: "string list \<Rightarrow> nat \<Rightarrow> string list" where
  "parse_content_bindings raw_bindings version = raw_bindings"

text \<open>
  Modelled from the spec: \<^verbatim>\<open>collection.get_matching_bindings\<close> is the intersection of
  the requested bindings with the ones the collection supports, in the collection's
  order.
\<close>

definition get_matching_bindings :: "collection \<Rightarrow> string list \<Rightarrow> string list" where
  "get_matching_bindings coll requested_bindings =
     filter (\<lambda>b. b \<in> set requested_bindings) (coll_supported_content coll)"

text \<open>
  Modelled from the spec: \<^verbatim>\<open>collection.get_supported_content\<close> is the collection's full
  list of supported bindings.
\<close>

definition get_supported_content :: "collection \<Rightarrow> nat \<Rightarrow> string list" where
  "get_supported_content coll version = coll_supported_content coll"

text \<open>
  Modelled from the spec: \<^verbatim>\<open>subscription_to_subscription_instance\<close> builds the wire
  instance: the subscription's id, its status and the given subscription parameters
  under version 11 only, and one poll descriptor per polling service and protocol
  binding.
\<close>

definition subscription_to_subscription_instance ::
  "subscription \<Rightarrow> polling_service list \<Rightarrow> nat \<Rightarrow> poll_request_params option
     \<Rightarrow> subscription_instance" where
  "subscription_to_subscription_instance sub polling_services version params =
     \<lparr>inst_subscription_id = sub_subscription_id sub,
      inst_status = (if version = 11 then Some (sub_status sub) else None),
      inst_subscription_parameters = (if version = 11 then params else None),
      inst_poll_instances = concat polling_services\<rparr>"

subsection \<open>The action functions\<close>

definition retrieve_collection ::
  "service \<Rightarrow> string \<Rightarrow> string \<Rightarrow> (failure + collection) \<times> service" where
  "retrieve_collection svc name in_response_to =
     (case get_collection svc name of
        (None, svc') \<Rightarrow>
          (Inl (StatusMessageException ST_NOT_FOUND
                  (Some ''The collection you requested was not found'')
                  in_response_to (Some [(SD_ITEM, DStr name)])), svc')
      | (Some coll, svc') \<Rightarrow> (Inr coll, svc'))"

text \<open>An action returns one subscription or (the status of all) a list of them.\<close>

datatype action_result = One subscription | Many "subscription list"

definition action_subscribe ::
  "tm_request \<Rightarrow> service \<Rightarrow> collection \<Rightarrow> nat \<Rightarrow> (failure + action_result) \<times> service" where
  "action_subscribe req svc coll version =
     (let negotiated =
            (if version = 11 then
               (case req of
                  ManageFeedSubscriptionRequest _ \<Rightarrow> Inl AttributeError
                | ManageCollectionSubscriptionRequest r \<Rightarrow>
                    (let params = subscription_parameters r;
                         response_type = sp_response_type params
                     in if length (sp_content_bindings params) = 0 then Inr (Some response_type, [])
                        else
                          (let requested_bindings =
                                 parse_content_bindings (sp_content_bindings params) version;
                               supported_contents = get_matching_bindings coll requested_bindings
                           in if requested_bindings \<noteq> [] \<and> supported_contents = [] then
                                Inl (StatusMessageException ST_UNSUPPORTED_CONTENT_BINDING None
                                       (message_id r)
                                       (Some [(SD_SUPPORTED_CONTENT,
                                               DList (get_supported_content coll version))]))
                              else Inr (Some response_type, supported_contents))))
             else Inr (None, []))
      in case negotiated of
           Inl e \<Rightarrow> (Inl e, svc)
         | Inr (response_type, supported_contents) \<Rightarrow>
             (let poll_request_params =
                    \<lparr>prp_response_type = response_type,
                     prp_content_bindings = supported_contents\<rparr>;
                  sub = \<lparr>sub_collection_id = Some (coll_id coll),
                         sub_subscription_id = None,
                         sub_status = ACTIVE,
                         sub_params = Some poll_request_params\<rparr>;
                  (created, svc') = create_subscription svc sub
              in (Inr (One created), svc')))"

definition action_unsubscribe ::
  "tm_request \<Rightarrow> service \<Rightarrow> subscription option \<Rightarrow> (failure + action_result) \<times> service" where
  "action_unsubscribe req svc subscription =
     (case subscription of
        Some sub \<Rightarrow>
          (let (updated, svc') = update_subscription svc sub UNSUBSCRIBED
           in (Inr (One updated), svc'))
      | None \<Rightarrow>
          (Inr (One \<lparr>sub_collection_id = None,
                     sub_subscription_id = request_subscription_id req,
                     sub_status = UNSUBSCRIBED,
                     sub_params = None\<rparr>), svc))"

definition action_status ::
  "service \<Rightarrow> subscription option \<Rightarrow> (failure + action_result) \<times> service" where
  "action_status svc subscription =
     (case subscription of
        Some sub \<Rightarrow> (Inr (One sub), svc)
      | None \<Rightarrow> (let (subs, svc') = get_subscriptions svc in (Inr (Many subs), svc')))"

definition action_pause ::
  "service \<Rightarrow> subscription option \<Rightarrow> (failure + action_result) \<times> service" where
  "action_pause svc subscription =
     (case subscription of
        None \<Rightarrow> (Inl AttributeError, svc)
      | Some sub \<Rightarrow>
          if sub_status sub = PAUSED then (Inr (One sub), svc)
          else (let (updated, svc') = update_subscription svc sub PAUSED
                in (Inr (One updated), svc')))"

definition action_resume ::
  "service \<Rightarrow> subscription option \<Rightarrow> (failure + action_result) \<times> service" where
  "action_resume svc subscription =
     (case subscription of
        None \<Rightarrow> (Inl AttributeError, svc)
      | Some sub \<Rightarrow>
          if sub_status sub \<noteq> PAUSED then (Inr (One sub), svc)
          else (let (updated, svc') = update_subscription svc sub ACTIVE
                in (Inr (One updated), svc')))"

text \<open>
  The table \<^verbatim>\<open>ACTIONS\<close>: every entry is called with the same keyword arguments
  (service, request, collection, subscription, version) and takes the ones it names.
\<close>

type_synonym action_function =
  "tm_request \<Rightarrow> service \<Rightarrow> collection \<Rightarrow> subscription option \<Rightarrow> nat
     \<Rightarrow> (failure + action_result) \<times> service"

definition ACTIONS :: "(string \<times> action_function) list" where
  "ACTIONS =
     [(ACT_SUBSCRIBE, \<lambda>req svc coll subscription version. action_subscribe req svc coll version),
      (ACT_UNSUBSCRIBE, \<lambda>req svc coll subscription version. action_unsubscribe req svc subscription),
      (ACT_PAUSE, \<lambda>req svc coll subscription version. action_pause svc subscription),
      (ACT_RESUME, \<lambda>req svc coll subscription version. action_resume svc subscription),
      (ACT_STATUS, \<lambda>req svc coll subscription version. action_status svc subscription)]"

text \<open>\<^verbatim>\<open>isinstance(result, list)\<close>: a single result becomes a list of one.\<close>

fun as_results :: "action_result \<Rightarrow> subscription list" where
  "as_results (One s) = [s]"
| "as_results (Many ss) = ss"

subsection \<open>The version handlers\<close>

definition requires_id_message :: "string \<Rightarrow> string" where
  "requires_id_message a =
     ''Action '' @ [CHR 0x22] @ a @ [CHR 0x22] @ '' requires a subscription id''"

text \<open>\<^verbatim>\<open>SubscriptionRequest11Handler.validate_request\<close>.\<close>

definition validate_request11 :: "request11 \<Rightarrow> subscription option \<Rightarrow> failure + unit" where
  "validate_request11 req subscription =
     (let act = action req;
          error_message =
            (if act \<notin> set ACT_TYPES_11 then Some ''The specified action was invalid''
             else if act \<in> set [ACT_UNSUBSCRIBE, ACT_PAUSE, ACT_RESUME]
                     \<and> \<not> truthy (subscription_id req)
               then Some (requires_id_message act)
             else None)
      in if truthy error_message then
           Inl (StatusMessageException ST_BAD_MESSAGE error_message (message_id req) None)
         else if subscription = None
                 \<and> (act \<in> set [ACT_PAUSE, ACT_RESUME]
                      \<or> (act = ACT_STATUS \<and> truthy (subscription_id req))) then
           Inl (StatusMessageException ST_NOT_FOUND None (message_id req)
                  (Some [(SD_ITEM, opt_value (subscription_id req))]))
         else Inr ())"

text \<open>
  The lookup both handlers make: \<^verbatim>\<open>service.get_subscription\<close> when the request's
  subscription id is true, \<^verbatim>\<open>None\<close> without a call otherwise.
\<close>

definition lookup_subscription ::
  "service \<Rightarrow> string option \<Rightarrow> subscription option \<times> service" where
  "lookup_subscription svc sid_opt =
     (case sid_opt of
        None \<Rightarrow> (None, svc)
      | Some sid \<Rightarrow> if sid \<noteq> [] then get_subscription svc sid else (None, svc))"

text \<open>\<^verbatim>\<open>subscription and subscription.collection_id != collection.id\<close>.\<close>

definition collection_mismatch :: "subscription option \<Rightarrow> collection \<Rightarrow> bool" where
  "collection_mismatch subscription coll =
     (case subscription of
        None \<Rightarrow> False
      | Some sub \<Rightarrow> sub_collection_id sub \<noteq> Some (coll_id coll))"

text \<open>
  \<^verbatim>\<open>SubscriptionRequest11Handler.handle_message\<close>; \<open>generated_id\<close> is what
  \<^verbatim>\<open>cls.generate_id()\<close> returns.
\<close>

definition handle_message11 ::
  "string \<Rightarrow> service \<Rightarrow> request11 \<Rightarrow> (failure + response11) \<times> service" where
  "handle_message11 generated_id svc req =
     (let (subscription, svc1) = lookup_subscription svc (subscription_id req)
      in case validate_request11 req subscription of
           Inl e \<Rightarrow> (Inl e, svc1)
         | Inr _ \<Rightarrow>
             (case retrieve_collection svc1 (collection_name req) (message_id req) of
                (Inl e, svc2) \<Rightarrow> (Inl e, svc2)
              | (Inr coll, svc2) \<Rightarrow>
                  if collection_mismatch subscription coll then
                    (Inl (StatusMessageException ST_NOT_FOUND None (message_id req)
                            (Some [(SD_ITEM, DStr (collection_name req))])), svc2)
                  else
                    (case map_of ACTIONS (action req) of
                       None \<Rightarrow> (Inl KeyError, svc2)
                     | Some act \<Rightarrow>
                         (case act (ManageCollectionSubscriptionRequest req) svc2 coll
                                 subscription 11 of
                            (Inl e, svc3) \<Rightarrow> (Inl e, svc3)
                          | (Inr result, svc3) \<Rightarrow>
                              (let results = as_results result;
                                   (polling_services, svc4) = get_polling_services svc3 coll
                               in (Inr \<lparr>resp11_message_id = generated_id,
                                        resp11_in_response_to = message_id req,
                                        resp11_collection_name = coll_name coll,
                                        resp11_message = subscription_message svc2,
                                        resp11_subscription_instances =
                                          map (\<lambda>s. subscription_to_subscription_instance s
                                                      polling_services 11 (sub_params s))
                                            results\<rparr>, svc4))))))"

text \<open>\<^verbatim>\<open>SubscriptionRequest10Handler.validate_request\<close>.\<close>

definition validate_request10 :: "request10 \<Rightarrow> failure + unit" where
  "validate_request10 req =
     (let act = action req;
          error_message =
            (if act \<notin> set ACT_TYPES_10 then Some ''The specified action was invalid''
             else if act = ACT_UNSUBSCRIBE \<and> \<not> truthy (subscription_id req)
               then Some (requires_id_message act)
             else None)
      in if truthy error_message then
           Inl (StatusMessageException ST_BAD_MESSAGE error_message (message_id req) None)
         else Inr ())"

text \<open>\<^verbatim>\<open>SubscriptionRequest10Handler.handle_message\<close>.\<close>

definition handle_message10 ::
  "string \<Rightarrow> service \<Rightarrow> request10 \<Rightarrow> (failure + response10) \<times> service" where
  "handle_message10 generated_id svc req =
     (case validate_request10 req of
        Inl e \<Rightarrow> (Inl e, svc)
      | Inr _ \<Rightarrow>
          (case retrieve_collection svc (feed_name req) (message_id req) of
             (Inl e, svc1) \<Rightarrow> (Inl e, svc1)
           | (Inr coll, svc1) \<Rightarrow>
               (let (subscription, svc2) = lookup_subscription svc1 (subscription_id req)
                in if collection_mismatch subscription coll then
                     (Inl (StatusMessageException ST_NOT_FOUND None (message_id req)
                             (Some [(SD_ITEM, DStr (feed_name req))])), svc2)
                   else
                     (case map_of ACTIONS (action req) of
                        None \<Rightarrow> (Inl KeyError, svc2)
                      | Some act \<Rightarrow>
                          (case act (ManageFeedSubscriptionRequest req) svc2 coll
                                  subscription 10 of
                             (Inl e, svc3) \<Rightarrow> (Inl e, svc3)
                           | (Inr result, svc3) \<Rightarrow>
                               (let results = as_results result;
                                    (polling_services, svc4) = get_polling_services svc3 coll
                                in (Inr \<lparr>resp10_message_id = generated_id,
                                         resp10_in_response_to = message_id req,
                                         resp10_feed_name = coll_name coll,
                                         resp10_message = subscription_message svc2,
                                         resp10_subscription_instances =
                                           map (\<lambda>s. subscription_to_subscription_instance s
                                                       polling_services 10 None)
                                             results\<rparr>, svc4)))))))"

subsection \<open>A small service to run the handlers on\<close>

definition collection_X :: collection where
  "collection_X = \<lparr>coll_id = 1, coll_name = ''X'', coll_supported_content = [''A'', ''B'']\<rparr>"

definition collection_Y :: collection where
  "collection_Y = \<lparr>coll_id = 2, coll_name = ''Y'', coll_supported_content = [''A'']\<rparr>"

definition stored :: "string \<Rightarrow> subscription_status \<Rightarrow> subscription" where
  "stored sid st =
     \<lparr>sub_collection_id = Some 1, sub_subscription_id = Some sid, sub_status = st,
      sub_params = Some \<lparr>prp_response_type = Some ''FULL'', prp_content_bindings = [''B'']\<rparr>\<rparr>"

definition service_A :: service where
  "service_A =
     \<lparr>collections = [collection_X, collection_Y],
      subscriptions = [stored ''s1'' ACTIVE, stored ''s2'' PAUSED, stored ''s3'' UNSUBSCRIBED],
      polling = (\<lambda>c. [[(''http'', ''/poll'')]]),
      subscription_message = Some ''hello'',
      assign_id = (\<lambda>ss. ''new''),
      calls = []\<rparr>"

definition request11_of ::
  "string \<Rightarrow> string option \<Rightarrow> string \<Rightarrow> string list \<Rightarrow> request11" where
  "request11_of act sid name bindings =
     \<lparr>message_id = ''m1'', action = act, subscription_id = sid, collection_name = name,
      subscription_parameters =
        \<lparr>sp_response_type = ''FULL'', sp_content_bindings = bindings\<rparr>\<rparr>"

definition request10_of :: "string \<Rightarrow> string option \<Rightarrow> string \<Rightarrow> request10" where
  "request10_of act sid name =
     \<lparr>message_id = ''m1'', action = act, subscription_id = sid, feed_name = name\<rparr>"

section \<open>Basic facts\<close>

subsection \<open>Actions and legal action sets\<close>

lemma act_distinct [simp]:
  "ACT_SUBSCRIBE \<noteq> ACT_UNSUBSCRIBE" "ACT_SUBSCRIBE \<noteq> ACT_PAUSE" "ACT_SUBSCRIBE \<noteq> ACT_RESUME"
  "ACT_SUBSCRIBE \<noteq> ACT_STATUS" "ACT_UNSUBSCRIBE \<noteq> ACT_SUBSCRIBE" "ACT_UNSUBSCRIBE \<noteq> ACT_PAUSE"
  "ACT_UNSUBSCRIBE \<noteq> ACT_RESUME" "ACT_UNSUBSCRIBE \<noteq> ACT_STATUS" "ACT_PAUSE \<noteq> ACT_SUBSCRIBE"
  "ACT_PAUSE \<noteq> ACT_UNSUBSCRIBE" "ACT_PAUSE \<noteq> ACT_RESUME" "ACT_PAUSE \<noteq> ACT_STATUS"
  "ACT_RESUME \<noteq> ACT_SUBSCRIBE" "ACT_RESUME \<noteq> ACT_UNSUBSCRIBE" "ACT_RESUME \<noteq> ACT_PAUSE"
  "ACT_RESUME \<noteq> ACT_STATUS" "ACT_STATUS \<noteq> ACT_SUBSCRIBE" "ACT_STATUS \<noteq> ACT_UNSUBSCRIBE"
  "ACT_STATUS \<noteq> ACT_PAUSE" "ACT_STATUS \<noteq> ACT_RESUME"
  by (simp_all add: ACT_SUBSCRIBE_def ACT_UNSUBSCRIBE_def ACT_PAUSE_def ACT_RESUME_def
        ACT_STATUS_def)

lemma requires_id_message_nonempty [simp]: "requires_id_message a \<noteq> []"
  by (simp add: requires_id_message_def)

lemma legal_11 [simp]:
  "a \<in> set ACT_TYPES_11 \<longleftrightarrow>
     a = ACT_SUBSCRIBE \<or> a = ACT_PAUSE \<or> a = ACT_RESUME \<or> a = ACT_UNSUBSCRIBE \<or> a = ACT_STATUS"
  by (simp add: ACT_TYPES_11_def)

lemma legal_10 [simp]:
  "a \<in> set ACT_TYPES_10 \<longleftrightarrow> a = ACT_SUBSCRIBE \<or> a = ACT_UNSUBSCRIBE \<or> a = ACT_STATUS"
  by (simp add: ACT_TYPES_10_def)

lemma ACTIONS_lookup:
  "map_of ACTIONS ACT_SUBSCRIBE =
     Some (\<lambda>req svc coll subscription version. action_subscribe req svc coll version)"
  "map_of ACTIONS ACT_UNSUBSCRIBE =
     Some (\<lambda>req svc coll subscription version. action_unsubscribe req svc subscription)"
  "map_of ACTIONS ACT_PAUSE =
     Some (\<lambda>req svc coll subscription version. action_pause svc subscription)"
  "map_of ACTIONS ACT_RESUME =
     Some (\<lambda>req svc coll subscription version. action_resume svc subscription)"
  "map_of ACTIONS ACT_STATUS =
     Some (\<lambda>req svc coll subscription version. action_status svc subscription)"
  by (simp_all add: ACTIONS_def)

lemma legal_10_ACTIONS:
  assumes "a \<in> set ACT_TYPES_10"
  obtains act where "map_of ACTIONS a = Some act"
  using assms by (auto simp add: ACTIONS_lookup)

subsection \<open>The store\<close>

lemma called_fields [simp]:
  "collections (called svc c) = collections svc"
  "subscriptions (called svc c) = subscriptions svc"
  "polling (called svc c) = polling svc"
  "subscription_message (called svc c) = subscription_message svc"
  "assign_id (called svc c) = assign_id svc"
  "calls (called svc c) = calls svc @ [c]"
  by (simp_all add: called_def)

lemma find_map_replace:
  "find (\<lambda>s. k s = v) xs = Some x \<Longrightarrow> k x' = v \<Longrightarrow>
   find (\<lambda>s. k s = v) (map (\<lambda>s. if k s = v then x' else s) xs) = Some x'"
  by (induction xs) (auto split: if_splits)

lemma find_key: "find (\<lambda>s. k s = v) xs = Some x \<Longrightarrow> k x = v"
  by (induction xs) (auto split: if_splits)

lemma get_subscription_eq:
  "get_subscription svc sid =
     (find (\<lambda>s. sub_subscription_id s = Some sid) (subscriptions svc),
      called svc (GetSubscription sid))"
  by (simp add: get_subscription_def)

lemma get_subscription_id:
  assumes "fst (get_subscription svc sid) = Some sub"
  shows "sub_subscription_id sub = Some sid"
proof -
  from assms have "find (\<lambda>s. sub_subscription_id s = Some sid) (subscriptions svc) = Some sub"
    by (simp add: get_subscription_def)
  then show ?thesis by (rule find_key)
qed

lemma get_subscription_called [simp]:
  "fst (get_subscription (called svc c) sid) = fst (get_subscription svc sid)"
  by (simp add: get_subscription_def)

lemma get_collection_called [simp]:
  "fst (get_collection (called svc c) name) = fst (get_collection svc name)"
  by (simp add: get_collection_def)

lemma get_subscription_calls_update [simp]:
  "fst (get_subscription (svc\<lparr>calls := cs\<rparr>) sid) = fst (get_subscription svc sid)"
  by (simp add: get_subscription_def)

lemma get_collection_calls_update [simp]:
  "fst (get_collection (svc\<lparr>calls := cs\<rparr>) name) = fst (get_collection svc name)"
  by (simp add: get_collection_def)

lemma get_subscription_snd [simp]:
  "snd (get_subscription svc sid) = called svc (GetSubscription sid)"
  by (simp add: get_subscription_def)

lemma get_collection_snd [simp]:
  "snd (get_collection svc name) = called svc (GetCollection name)"
  by (simp add: get_collection_def)

lemma update_subscription_result:
  "fst (update_subscription svc sub st) = sub\<lparr>sub_status := st\<rparr>"
  by (simp add: update_subscription_def Let_def)

lemma update_subscription_calls:
  "calls (snd (update_subscription svc sub st)) =
     calls svc @ [UpdateSubscription (sub_subscription_id sub) st]"
  by (simp add: update_subscription_def Let_def called_def)

lemma update_subscription_persists:
  assumes "fst (get_subscription svc sid) = Some sub"
  shows "fst (get_subscription (snd (update_subscription svc sub st)) sid) =
           Some (sub\<lparr>sub_status := st\<rparr>)"
proof -
  from assms have f: "find (\<lambda>s. sub_subscription_id s = Some sid) (subscriptions svc) = Some sub"
    by (simp add: get_subscription_def)
  then have k: "sub_subscription_id sub = Some sid" by (rule find_key)
  from find_map_replace [OF f, of "sub\<lparr>sub_status := st\<rparr>"] k show ?thesis
    by (simp add: get_subscription_def update_subscription_def Let_def called_def)
qed

lemma create_subscription_eq:
  "create_subscription svc sub =
     (sub\<lparr>sub_subscription_id := Some (assign_id svc (subscriptions svc))\<rparr>,
      called (svc\<lparr>subscriptions := subscriptions svc
                @ [sub\<lparr>sub_subscription_id := Some (assign_id svc (subscriptions svc))\<rparr>]\<rparr>)
        (CreateSubscription (sub\<lparr>sub_subscription_id := Some (assign_id svc (subscriptions svc))\<rparr>)))"
  by (simp add: create_subscription_def Let_def)

lemma retrieve_collection_eq:
  "retrieve_collection svc name irt =
     ((case fst (get_collection svc name) of
         None \<Rightarrow> Inl (StatusMessageException ST_NOT_FOUND
                       (Some ''The collection you requested was not found'') irt
                       (Some [(SD_ITEM, DStr name)]))
       | Some coll \<Rightarrow> Inr coll),
      called svc (GetCollection name))"
  by (simp add: retrieve_collection_def get_collection_def split: option.split)

lemma lookup_subscription_Some:
  "sid \<noteq> [] \<Longrightarrow> lookup_subscription svc (Some sid) = get_subscription svc sid"
  by (simp add: lookup_subscription_def)

lemma lookup_subscription_falsy:
  "\<not> truthy sid_opt \<Longrightarrow> lookup_subscription svc sid_opt = (None, svc)"
  by (cases sid_opt) (simp_all add: lookup_subscription_def)

lemma lookup_subscription_eq:
  "lookup_subscription svc sid_opt =
     (if truthy sid_opt then get_subscription svc (the sid_opt) else (None, svc))"
  by (cases sid_opt) (simp_all add: lookup_subscription_def)

lemma lookup_subscription_fields [simp]:
  "collections (snd (lookup_subscription svc sid_opt)) = collections svc"
  "subscriptions (snd (lookup_subscription svc sid_opt)) = subscriptions svc"
  "subscription_message (snd (lookup_subscription svc sid_opt)) = subscription_message svc"
  "polling (snd (lookup_subscription svc sid_opt)) = polling svc"
  by (simp_all add: lookup_subscription_eq)

subsection \<open>The action functions\<close>

lemma action_pause_Some:
  "action_pause svc (Some sub) =
     (if sub_status sub = PAUSED then (Inr (One sub), svc)
      else (Inr (One (sub\<lparr>sub_status := PAUSED\<rparr>)), snd (update_subscription svc sub PAUSED)))"
  by (simp add: action_pause_def update_subscription_def Let_def)

lemma action_resume_Some:
  "action_resume svc (Some sub) =
     (if sub_status sub \<noteq> PAUSED then (Inr (One sub), svc)
      else (Inr (One (sub\<lparr>sub_status := ACTIVE\<rparr>)), snd (update_subscription svc sub ACTIVE)))"
  by (simp add: action_resume_def update_subscription_def Let_def)

lemma action_unsubscribe_Some:
  "action_unsubscribe req svc (Some sub) =
     (Inr (One (sub\<lparr>sub_status := UNSUBSCRIBED\<rparr>)),
      snd (update_subscription svc sub UNSUBSCRIBED))"
  by (simp add: action_unsubscribe_def update_subscription_def Let_def)

lemma action_unsubscribe_None:
  "action_unsubscribe req svc None =
     (Inr (One \<lparr>sub_collection_id = None, sub_subscription_id = request_subscription_id req,
                sub_status = UNSUBSCRIBED, sub_params = None\<rparr>), svc)"
  by (simp add: action_unsubscribe_def)

lemma action_status_eq:
  "action_status svc subscription =
     (case subscription of
        Some sub \<Rightarrow> (Inr (One sub), svc)
      | None \<Rightarrow> (Inr (Many (subscriptions svc)), called svc GetSubscriptions))"
  by (simp add: action_status_def get_subscriptions_def split: option.split)

lemma action_subscribe_11:
  "action_subscribe (ManageCollectionSubscriptionRequest r) svc coll 11 =
     (if sp_content_bindings (subscription_parameters r) \<noteq> []
         \<and> get_matching_bindings coll (sp_content_bindings (subscription_parameters r)) = []
      then (Inl (StatusMessageException ST_UNSUPPORTED_CONTENT_BINDING None (message_id r)
                   (Some [(SD_SUPPORTED_CONTENT, DList (coll_supported_content coll))])), svc)
      else (Inr (One (fst (create_subscription svc
                  \<lparr>sub_collection_id = Some (coll_id coll), sub_subscription_id = None,
                   sub_status = ACTIVE,
                   sub_params = Some \<lparr>prp_response_type =
                       Some (sp_response_type (subscription_parameters r)),
                     prp_content_bindings =
                       get_matching_bindings coll
                         (sp_content_bindings (subscription_parameters r))\<rparr>\<rparr>))),
            snd (create_subscription svc
                  \<lparr>sub_collection_id = Some (coll_id coll), sub_subscription_id = None,
                   sub_status = ACTIVE,
                   sub_params = Some \<lparr>prp_response_type =
                       Some (sp_response_type (subscription_parameters r)),
                     prp_content_bindings =
                       get_matching_bindings coll
                         (sp_content_bindings (subscription_parameters r))\<rparr>\<rparr>)))"
  by (simp add: action_subscribe_def parse_content_bindings_def get_supported_content_def
      get_matching_bindings_def Let_def split_beta)

lemma action_subscribe_10:
  "action_subscribe req svc coll 10 =
     (Inr (One (fst (create_subscription svc
                  \<lparr>sub_collection_id = Some (coll_id coll), sub_subscription_id = None,
                   sub_status = ACTIVE,
                   sub_params = Some \<lparr>prp_response_type = None,
                                       prp_content_bindings = []\<rparr>\<rparr>))),
      snd (create_subscription svc
                  \<lparr>sub_collection_id = Some (coll_id coll), sub_subscription_id = None,
                   sub_status = ACTIVE,
                   sub_params = Some \<lparr>prp_response_type = None,
                                       prp_content_bindings = []\<rparr>\<rparr>))"
  by (simp add: action_subscribe_def Let_def split_beta)

subsection \<open>Validation\<close>

lemma validate_request11_illegal:
  "action req \<notin> set ACT_TYPES_11 \<Longrightarrow>
   validate_request11 req subscription =
     Inl (StatusMessageException ST_BAD_MESSAGE (Some ''The specified action was invalid'')
            (message_id req) None)"
  by (simp add: validate_request11_def Let_def)

lemma validate_request11_missing_id:
  "action req \<in> {ACT_UNSUBSCRIBE, ACT_PAUSE, ACT_RESUME} \<Longrightarrow> \<not> truthy (subscription_id req) \<Longrightarrow>
   validate_request11 req subscription =
     Inl (StatusMessageException ST_BAD_MESSAGE (Some (requires_id_message (action req)))
            (message_id req) None)"
  by (auto simp add: validate_request11_def Let_def)

lemma validate_request11_not_found:
  "action req \<in> {ACT_PAUSE, ACT_RESUME, ACT_STATUS} \<Longrightarrow> truthy (subscription_id req) \<Longrightarrow>
   validate_request11 req None =
     Inl (StatusMessageException ST_NOT_FOUND None (message_id req)
            (Some [(SD_ITEM, opt_value (subscription_id req))]))"
  by (auto simp add: validate_request11_def Let_def)

lemma validate_request11_ok:
  "validate_request11 req subscription = Inr u \<longleftrightarrow>
     action req \<in> set ACT_TYPES_11
     \<and> (action req \<in> {ACT_UNSUBSCRIBE, ACT_PAUSE, ACT_RESUME} \<longrightarrow> truthy (subscription_id req))
     \<and> (subscription = None \<longrightarrow>
          action req \<noteq> ACT_PAUSE \<and> action req \<noteq> ACT_RESUME
          \<and> (action req = ACT_STATUS \<longrightarrow> \<not> truthy (subscription_id req)))"
  by (auto simp add: validate_request11_def Let_def)

lemma validate_request11_signal:
  "validate_request11 req subscription = Inl e \<Longrightarrow>
   e = StatusMessageException ST_NOT_FOUND None (message_id req)
         (Some [(SD_ITEM, opt_value (subscription_id req))])
   \<or> (\<exists>m. e = StatusMessageException ST_BAD_MESSAGE m (message_id req) None)"
  by (auto simp add: validate_request11_def Let_def split: if_splits)

lemma validate_request10_ok:
  "validate_request10 req = Inr u \<longleftrightarrow>
     action req \<in> set ACT_TYPES_10
     \<and> (action req = ACT_UNSUBSCRIBE \<longrightarrow> truthy (subscription_id req))"
  by (auto simp add: validate_request10_def Let_def)

lemma validate_request10_illegal:
  "action req \<notin> set ACT_TYPES_10 \<Longrightarrow>
   validate_request10 req =
     Inl (StatusMessageException ST_BAD_MESSAGE (Some ''The specified action was invalid'')
            (message_id req) None)"
  by (simp add: validate_request10_def Let_def)

lemma validate_request10_missing_id:
  "action req = ACT_UNSUBSCRIBE \<Longrightarrow> \<not> truthy (subscription_id req) \<Longrightarrow>
   validate_request10 req =
     Inl (StatusMessageException ST_BAD_MESSAGE (Some (requires_id_message ACT_UNSUBSCRIBE))
            (message_id req) None)"
  by (simp add: validate_request10_def Let_def)

subsection \<open>The handlers after validation\<close>

lemma handle_message11_valid:
  assumes "lookup_subscription svc (subscription_id req) = (subscription, svc1)"
    and "validate_request11 req subscription = Inr ()"
    and "map_of ACTIONS (action req) = Some act"
  shows "handle_message11 g svc req =
     (case fst (get_collection svc1 (collection_name req)) of
        None \<Rightarrow>
          (Inl (StatusMessageException ST_NOT_FOUND
                  (Some ''The collection you requested was not found'') (message_id req)
                  (Some [(SD_ITEM, DStr (collection_name req))])),
           called svc1 (GetCollection (collection_name req)))
      | Some coll \<Rightarrow>
          if collection_mismatch subscription coll then
            (Inl (StatusMessageException ST_NOT_FOUND None (message_id req)
                    (Some [(SD_ITEM, DStr (collection_name req))])),
             called svc1 (GetCollection (collection_name req)))
          else
            (case fst (act (ManageCollectionSubscriptionRequest req)
                         (called svc1 (GetCollection (collection_name req))) coll
                         subscription 11) of
               Inl e \<Rightarrow>
                 (Inl e, snd (act (ManageCollectionSubscriptionRequest req)
                                (called svc1 (GetCollection (collection_name req))) coll
                                subscription 11))
             | Inr result \<Rightarrow>
                 (Inr \<lparr>resp11_message_id = g, resp11_in_response_to = message_id req,
                       resp11_collection_name = coll_name coll,
                       resp11_message = subscription_message svc1,
                       resp11_subscription_instances =
                         map (\<lambda>s. subscription_to_subscription_instance s
                                     (polling (snd (act (ManageCollectionSubscriptionRequest req)
                                        (called svc1 (GetCollection (collection_name req))) coll
                                        subscription 11)) (coll_id coll)) 11 (sub_params s))
                           (as_results result)\<rparr>,
                  called (snd (act (ManageCollectionSubscriptionRequest req)
                                 (called svc1 (GetCollection (collection_name req))) coll
                                 subscription 11))
                    (GetPollingServices (coll_id coll)))))"
  using assms
  by (simp add: handle_message11_def retrieve_collection_eq get_polling_services_def
      split_beta Let_def split: option.split sum.split)

lemma handle_message10_valid:
  assumes "validate_request10 req = Inr ()"
    and "map_of ACTIONS (action req) = Some act"
    and "lookup_subscription (called svc (GetCollection (feed_name req))) (subscription_id req)
           = (subscription, svc2)"
  shows "handle_message10 g svc req =
     (case fst (get_collection svc (feed_name req)) of
        None \<Rightarrow>
          (Inl (StatusMessageException ST_NOT_FOUND
                  (Some ''The collection you requested was not found'') (message_id req)
                  (Some [(SD_ITEM, DStr (feed_name req))])),
           called svc (GetCollection (feed_name req)))
      | Some coll \<Rightarrow>
          if collection_mismatch subscription coll then
            (Inl (StatusMessageException ST_NOT_FOUND None (message_id req)
                    (Some [(SD_ITEM, DStr (feed_name req))])), svc2)
          else
            (case fst (act (ManageFeedSubscriptionRequest req) svc2 coll subscription 10) of
               Inl e \<Rightarrow>
                 (Inl e, snd (act (ManageFeedSubscriptionRequest req) svc2 coll subscription 10))
             | Inr result \<Rightarrow>
                 (Inr \<lparr>resp10_message_id = g, resp10_in_response_to = message_id req,
                       resp10_feed_name = coll_name coll,
                       resp10_message = subscription_message svc2,
                       resp10_subscription_instances =
                         map (\<lambda>s. subscription_to_subscription_instance s
                                     (polling (snd (act (ManageFeedSubscriptionRequest req)
                                        svc2 coll subscription 10)) (coll_id coll)) 10 None)
                           (as_results result)\<rparr>,
                  called (snd (act (ManageFeedSubscriptionRequest req) svc2 coll subscription 10))
                    (GetPollingServices (coll_id coll)))))"
  using assms
  by (simp add: handle_message10_def retrieve_collection_eq get_polling_services_def
      split_beta Let_def split: option.split sum.split)

lemma handle_message11_failure:
  assumes "fst (handle_message11 g svc req) = Inl e"
  shows "(validate_request11 req (fst (lookup_subscription svc (subscription_id req))) = Inl e
          \<and> snd (handle_message11 g svc req) = snd (lookup_subscription svc (subscription_id req)))
       \<or> e = StatusMessageException ST_NOT_FOUND
               (Some ''The collection you requested was not found'') (message_id req)
               (Some [(SD_ITEM, DStr (collection_name req))])
       \<or> e = StatusMessageException ST_NOT_FOUND None (message_id req)
               (Some [(SD_ITEM, DStr (collection_name req))])
       \<or> (action req = ACT_SUBSCRIBE
           \<and> (\<exists>d. e = StatusMessageException ST_UNSUPPORTED_CONTENT_BINDING None
                       (message_id req) d))"
proof -
  obtain subscription svc1
    where l: "lookup_subscription svc (subscription_id req) = (subscription, svc1)"
    by (cases "lookup_subscription svc (subscription_id req)")
  show ?thesis
  proof (cases "validate_request11 req subscription")
    case (Inl e')
    with assms l show ?thesis
      by (simp add: handle_message11_def)
  next
    case (Inr u)
    then have ok: "validate_request11 req subscription = Inr ()"
      by simp
    from ok have legal: "action req \<in> set ACT_TYPES_11"
      and present: "subscription = None \<Longrightarrow> action req \<noteq> ACT_PAUSE \<and> action req \<noteq> ACT_RESUME"
      by (simp_all add: validate_request11_ok)
    note h = handle_message11_valid [OF l ok, of _ g]
    from legal consider "action req = ACT_SUBSCRIBE" | "action req = ACT_UNSUBSCRIBE"
      | "action req = ACT_PAUSE" | "action req = ACT_RESUME" | "action req = ACT_STATUS"
      by auto
    then show ?thesis
    proof cases
      case 1
      then have m: "map_of ACTIONS (action req) =
          Some (\<lambda>req svc coll subscription version. action_subscribe req svc coll version)"
        by (simp add: ACTIONS_lookup)
      from assms 1 show ?thesis unfolding h [OF m]
        by (auto simp add: action_subscribe_11 split: option.splits if_splits)
    next
      case 2
      then have m: "map_of ACTIONS (action req) =
          Some (\<lambda>req svc coll subscription version. action_unsubscribe req svc subscription)"
        by (simp add: ACTIONS_lookup)
      from assms 2 show ?thesis unfolding h [OF m]
        by (cases subscription)
          (auto simp add: action_unsubscribe_None action_unsubscribe_Some
            split: option.splits if_splits)
    next
      case 3
      with present obtain sub where s: "subscription = Some sub"
        by (cases subscription) auto
      from 3 have m: "map_of ACTIONS (action req) =
          Some (\<lambda>req svc coll subscription version. action_pause svc subscription)"
        by (simp add: ACTIONS_lookup)
      from assms 3 s show ?thesis unfolding h [OF m]
        by (auto simp add: action_pause_Some split: option.splits if_splits)
    next
      case 4
      with present obtain sub where s: "subscription = Some sub"
        by (cases subscription) auto
      from 4 have m: "map_of ACTIONS (action req) =
          Some (\<lambda>req svc coll subscription version. action_resume svc subscription)"
        by (simp add: ACTIONS_lookup)
      from assms 4 s show ?thesis unfolding h [OF m]
        by (auto simp add: action_resume_Some split: option.splits if_splits)
    next
      case 5
      then have m: "map_of ACTIONS (action req) =
          Some (\<lambda>req svc coll subscription version. action_status svc subscription)"
        by (simp add: ACTIONS_lookup)
      from assms 5 show ?thesis unfolding h [OF m]
        by (auto simp add: action_status_eq split: option.splits if_splits)
    qed
  qed
qed

lemma handle_message10_failure:
  assumes "fst (handle_message10 g svc req) = Inl e"
  shows "(validate_request10 req = Inl e \<and> snd (handle_message10 g svc req) = svc)
       \<or> e = StatusMessageException ST_NOT_FOUND
               (Some ''The collection you requested was not found'') (message_id req)
               (Some [(SD_ITEM, DStr (feed_name req))])
       \<or> e = StatusMessageException ST_NOT_FOUND None (message_id req)
               (Some [(SD_ITEM, DStr (feed_name req))])"
proof (cases "validate_request10 req")
  case (Inl e')
  with assms show ?thesis
    by (simp add: handle_message10_def)
next
  case (Inr u)
  then have ok: "validate_request10 req = Inr ()"
    by simp
  obtain subscription svc2
    where l: "lookup_subscription (called svc (GetCollection (feed_name req)))
                (subscription_id req) = (subscription, svc2)"
    by (cases "lookup_subscription (called svc (GetCollection (feed_name req)))
                 (subscription_id req)")
  from ok have legal: "action req \<in> set ACT_TYPES_10"
    by (simp add: validate_request10_ok)
  note h = handle_message10_valid [OF ok _ l, of _ g]
  from legal consider "action req = ACT_SUBSCRIBE" | "action req = ACT_UNSUBSCRIBE"
    | "action req = ACT_STATUS"
    by auto
  then show ?thesis
  proof cases
    case 1
    then have m: "map_of ACTIONS (action req) =
        Some (\<lambda>req svc coll subscription version. action_subscribe req svc coll version)"
      by (simp add: ACTIONS_lookup)
    from assms 1 show ?thesis unfolding h [OF m]
      by (auto simp add: action_subscribe_10 split: option.splits if_splits)
  next
    case 2
    then have m: "map_of ACTIONS (action req) =
        Some (\<lambda>req svc coll subscription version. action_unsubscribe req svc subscription)"
      by (simp add: ACTIONS_lookup)
    from assms 2 show ?thesis unfolding h [OF m]
      by (cases subscription)
        (auto simp add: action_unsubscribe_None action_unsubscribe_Some
          split: option.splits if_splits)
  next
    case 3
    then have m: "map_of ACTIONS (action req) =
        Some (\<lambda>req svc coll subscription version. action_status svc subscription)"
      by (simp add: ACTIONS_lookup)
    from assms 3 show ?thesis unfolding h [OF m]
      by (auto simp add: action_status_eq split: option.splits if_splits)
  qed
qed

lemma handle_message10_success:
  assumes "fst (handle_message10 g svc req) = Inr resp"
  shows "\<forall>inst \<in> set (resp10_subscription_instances resp).
           inst_subscription_parameters inst = None"
proof (cases "validate_request10 req")
  case (Inl e)
  with assms show ?thesis
    by (simp add: handle_message10_def)
next
  case (Inr u)
  then have ok: "validate_request10 req = Inr ()"
    by simp
  then have "action req \<in> set ACT_TYPES_10"
    by (simp add: validate_request10_ok)
  then obtain act where m: "map_of ACTIONS (action req) = Some act"
    by (rule legal_10_ACTIONS)
  obtain subscription svc2
    where l: "lookup_subscription (called svc (GetCollection (feed_name req)))
                (subscription_id req) = (subscription, svc2)"
    by (cases "lookup_subscription (called svc (GetCollection (feed_name req)))
                 (subscription_id req)")
  from assms show ?thesis
    unfolding handle_message10_valid [OF ok m l]
    by (auto simp add: subscription_to_subscription_instance_def
        split: option.splits if_splits sum.splits)
qed

lemma get_collection_after_lookup:
  "fst (get_collection (snd (lookup_subscription svc sid_opt)) name) =
     fst (get_collection svc name)"
  by (simp add: get_collection_def)

lemma handle_message11_success:
  assumes "fst (handle_message11 g svc req) = Inr resp"
  shows "\<exists>act coll result.
           map_of ACTIONS (action req) = Some act
         \<and> validate_request11 req (fst (lookup_subscription svc (subscription_id req))) = Inr ()
         \<and> fst (get_collection svc (collection_name req)) = Some coll
         \<and> \<not> collection_mismatch (fst (lookup_subscription svc (subscription_id req))) coll
         \<and> fst (act (ManageCollectionSubscriptionRequest req)
                  (called (snd (lookup_subscription svc (subscription_id req)))
                     (GetCollection (collection_name req)))
                  coll (fst (lookup_subscription svc (subscription_id req))) 11) = Inr result
         \<and> map inst_subscription_parameters (resp11_subscription_instances resp) =
             map sub_params (as_results result)"
proof -
  obtain subscription svc1
    where l: "lookup_subscription svc (subscription_id req) = (subscription, svc1)"
    by (cases "lookup_subscription svc (subscription_id req)")
  then have s1: "svc1 = snd (lookup_subscription svc (subscription_id req))"
    by simp
  show ?thesis
  proof (cases "validate_request11 req subscription")
    case (Inl e)
    with assms l show ?thesis
      by (simp add: handle_message11_def)
  next
    case (Inr u)
    then have ok: "validate_request11 req subscription = Inr ()"
      by simp
    then have "action req \<in> set ACT_TYPES_11"
      by (simp add: validate_request11_ok)
    then obtain act where m: "map_of ACTIONS (action req) = Some act"
      by (auto simp add: ACTIONS_lookup)
    note h = handle_message11_valid [OF l ok m, of g]
    show ?thesis
    proof (cases "fst (get_collection svc1 (collection_name req))")
      case None
      with assms show ?thesis unfolding h by simp
    next
      case (Some coll)
      then have c: "fst (get_collection svc (collection_name req)) = Some coll"
        by (simp add: s1 get_collection_after_lookup)
      show ?thesis
      proof (cases "collection_mismatch subscription coll")
        case True
        with assms Some show ?thesis unfolding h by simp
      next
        case False
        show ?thesis
        proof (cases "fst (act (ManageCollectionSubscriptionRequest req)
                  (called svc1 (GetCollection (collection_name req))) coll subscription 11)")
          case (Inl e)
          with assms Some False show ?thesis unfolding h by simp
        next
          case (Inr result)
          with assms Some False
          have r: "map inst_subscription_parameters (resp11_subscription_instances resp) =
                     map sub_params (as_results result)"
            unfolding h by (auto simp add: subscription_to_subscription_instance_def)
          have lf: "fst (lookup_subscription svc (subscription_id req)) = subscription"
            and ls: "snd (lookup_subscription svc (subscription_id req)) = svc1"
            using l by simp_all
          from m ok c False Inr r show ?thesis
            unfolding lf ls by blast
        qed
      qed
    qed
  qed
qed

subsection \<open>The small service\<close>

lemma stored_status [simp]: "(stored sid st)\<lparr>sub_status := st'\<rparr> = stored sid st'"
  by (simp add: stored_def)

lemma stored_fields [simp]:
  "sub_status (stored sid st) = st" "sub_subscription_id (stored sid st) = Some sid"
  "sub_collection_id (stored sid st) = Some 1"
  by (simp_all add: stored_def)

lemma service_A_lookup:
  "fst (get_subscription service_A ''s1'') = Some (stored ''s1'' ACTIVE)"
  "fst (get_subscription service_A ''s2'') = Some (stored ''s2'' PAUSED)"
  "fst (get_subscription service_A ''s3'') = Some (stored ''s3'' UNSUBSCRIBED)"
  "fst (get_subscription service_A ''zz'') = None"
  by (simp_all add: get_subscription_def service_A_def)

lemma service_A_collections:
  "fst (get_collection service_A ''X'') = Some collection_X"
  "fst (get_collection service_A ''Y'') = Some collection_Y"
  "fst (get_collection service_A ''Z'') = None"
  by (simp_all add: get_collection_def service_A_def collection_X_def collection_Y_def)

lemma service_A_fields [simp]:
  "subscriptions service_A =
     [stored ''s1'' ACTIVE, stored ''s2'' PAUSED, stored ''s3'' UNSUBSCRIBED]"
  "calls service_A = []"
  "subscription_message service_A = Some ''hello''"
  "polling service_A c = [[(''http'', ''/poll'')]]"
  by (simp_all add: service_A_def)

lemma request11_of_fields [simp]:
  "message_id (request11_of a sid name bs) = ''m1''"
  "action (request11_of a sid name bs) = a"
  "subscription_id (request11_of a sid name bs) = sid"
  "collection_name (request11_of a sid name bs) = name"
  "sp_content_bindings (subscription_parameters (request11_of a sid name bs)) = bs"
  "sp_response_type (subscription_parameters (request11_of a sid name bs)) = ''FULL''"
  by (simp_all add: request11_of_def)

lemma request10_of_fields [simp]:
  "message_id (request10_of a sid name) = ''m1''"
  "action (request10_of a sid name) = a"
  "subscription_id (request10_of a sid name) = sid"
  "feed_name (request10_of a sid name) = name"
  by (simp_all add: request10_of_def)

lemma collection_fields [simp]:
  "coll_id collection_X = 1" "coll_name collection_X = ''X''"
  "coll_supported_content collection_X = [''A'', ''B'']"
  "coll_id collection_Y = 2" "coll_name collection_Y = ''Y''"
  "coll_supported_content collection_Y = [''A'']"
  by (simp_all add: collection_X_def collection_Y_def)

section \<open>Validation in the version-11 handler\<close>

text \<open>
  Claim C1. The version-11 handler answers a request whose action is not in the
  version-11 action set with BAD_MESSAGE; a request to unsubscribe, pause or resume that
  carries no subscription id with BAD_MESSAGE; and a request to pause, resume or (with an
  id) query a subscription that the store does not know with NOT_FOUND and the detail
  \<open>{item: subscription id}\<close>. Each signal answers the request's message id, and the
  result is the signal, not a response.
\<close>

theorem handle_message11_validation:
  "(action req \<notin> set ACT_TYPES_11 \<longrightarrow>
      fst (handle_message11 g svc req) =
        Inl (StatusMessageException ST_BAD_MESSAGE (Some ''The specified action was invalid'')
               (message_id req) None))
   \<and> (action req \<in> {ACT_UNSUBSCRIBE, ACT_PAUSE, ACT_RESUME} \<and> \<not> truthy (subscription_id req) \<longrightarrow>
      fst (handle_message11 g svc req) =
        Inl (StatusMessageException ST_BAD_MESSAGE (Some (requires_id_message (action req)))
               (message_id req) None))
   \<and> (action req \<in> {ACT_PAUSE, ACT_RESUME, ACT_STATUS} \<and> subscription_id req = Some sid
        \<and> sid \<noteq> [] \<and> fst (get_subscription svc sid) = None \<longrightarrow>
      fst (handle_message11 g svc req) =
        Inl (StatusMessageException ST_NOT_FOUND None (message_id req)
               (Some [(SD_ITEM, DStr sid)])))"
proof (intro conjI impI)
  assume "action req \<notin> set ACT_TYPES_11"
  then show "fst (handle_message11 g svc req) =
        Inl (StatusMessageException ST_BAD_MESSAGE (Some ''The specified action was invalid'')
               (message_id req) None)"
    by (simp add: handle_message11_def validate_request11_illegal split: prod.split)
next
  assume "action req \<in> {ACT_UNSUBSCRIBE, ACT_PAUSE, ACT_RESUME} \<and> \<not> truthy (subscription_id req)"
  then show "fst (handle_message11 g svc req) =
        Inl (StatusMessageException ST_BAD_MESSAGE (Some (requires_id_message (action req)))
               (message_id req) None)"
    by (simp add: handle_message11_def validate_request11_missing_id split: prod.split)
next
  assume a: "action req \<in> {ACT_PAUSE, ACT_RESUME, ACT_STATUS} \<and> subscription_id req = Some sid
        \<and> sid \<noteq> [] \<and> fst (get_subscription svc sid) = None"
  then have "lookup_subscription svc (subscription_id req) = (None, snd (get_subscription svc sid))"
    by (simp add: lookup_subscription_Some prod_eq_iff)
  moreover from a have "validate_request11 req None =
     Inl (StatusMessageException ST_NOT_FOUND None (message_id req) (Some [(SD_ITEM, DStr sid)]))"
    using validate_request11_not_found [of req] by simp
  ultimately show "fst (handle_message11 g svc req) =
        Inl (StatusMessageException ST_NOT_FOUND None (message_id req)
               (Some [(SD_ITEM, DStr sid)]))"
    by (simp add: handle_message11_def)
qed

theorem handle_message11_validation_witness:
  "fst (handle_message11 ''g'' service_A (request11_of ''BOGUS'' (Some ''s1'') ''X'' [])) =
     Inl (StatusMessageException ST_BAD_MESSAGE (Some ''The specified action was invalid'')
            ''m1'' None)
   \<and> fst (handle_message11 ''g'' service_A (request11_of ''PAUSE'' None ''X'' [])) =
     Inl (StatusMessageException ST_BAD_MESSAGE
            (Some (requires_id_message ''PAUSE'')) ''m1'' None)
   \<and> fst (handle_message11 ''g'' service_A (request11_of ''STATUS'' (Some ''zz'') ''X'' [])) =
     Inl (StatusMessageException ST_NOT_FOUND None ''m1'' (Some [(SD_ITEM, DStr ''zz'')]))"
proof -
  have 1: "action (request11_of ''BOGUS'' (Some ''s1'') ''X'' []) \<notin> set ACT_TYPES_11"
    by (simp add: request11_of_def ACT_SUBSCRIBE_def ACT_UNSUBSCRIBE_def
          ACT_PAUSE_def ACT_RESUME_def ACT_STATUS_def)
  have 2: "action (request11_of ''PAUSE'' None ''X'' []) \<in> {ACT_UNSUBSCRIBE, ACT_PAUSE, ACT_RESUME}
           \<and> \<not> truthy (subscription_id (request11_of ''PAUSE'' None ''X'' []))"
    by (simp add: request11_of_def ACT_PAUSE_def)
  have 3: "action (request11_of ''STATUS'' (Some ''zz'') ''X'' []) \<in> {ACT_PAUSE, ACT_RESUME, ACT_STATUS}
           \<and> subscription_id (request11_of ''STATUS'' (Some ''zz'') ''X'' []) = Some ''zz''
           \<and> ''zz'' \<noteq> [] \<and> fst (get_subscription service_A ''zz'') = None"
    by (simp add: request11_of_def ACT_STATUS_def get_subscription_def service_A_def stored_def)
  show ?thesis
    using handle_message11_validation [of "request11_of ''BOGUS'' (Some ''s1'') ''X'' []" "''g''" service_A "''zz''", THEN conjunct1, THEN mp, OF 1]
      handle_message11_validation [of "request11_of ''PAUSE'' None ''X'' []" "''g''" service_A "''zz''", THEN conjunct2, THEN conjunct1, THEN mp, OF 2]
      handle_message11_validation [of "request11_of ''STATUS'' (Some ''zz'') ''X'' []" "''g''" service_A "''zz''", THEN conjunct2, THEN conjunct2, THEN mp, OF 3]
    by (simp add: request11_of_def)
qed

text \<open>
  Claim C10. In the version-11 handler PAUSE and RESUME never run on an absent
  subscription. The action functions read \<^verbatim>\<open>subscription.status\<close> first, which on
  \<^verbatim>\<open>None\<close> is an \<open>AttributeError\<close>; the handler never ends in that error, and a pause
  or resume request that passes validation carries an id under which the store has a
  subscription, which is the one handed to the action function.
\<close>

theorem pause_resume_subscription_present:
  "fst (handle_message11 g svc req) \<noteq> Inl AttributeError
   \<and> (action req \<in> {ACT_PAUSE, ACT_RESUME}
        \<and> validate_request11 req (fst (lookup_subscription svc (subscription_id req))) = Inr ()
      \<longrightarrow> (\<exists>sub. subscription_id req \<noteq> None
                \<and> fst (get_subscription svc (the (subscription_id req))) = Some sub
                \<and> fst (lookup_subscription svc (subscription_id req)) = Some sub))
   \<and> fst (action_pause svc None) = Inl AttributeError
   \<and> fst (action_resume svc None) = Inl AttributeError"
proof (intro conjI impI)
  show "fst (handle_message11 g svc req) \<noteq> Inl AttributeError"
  proof
    assume "fst (handle_message11 g svc req) = Inl AttributeError"
    from handle_message11_failure [OF this]
    have "validate_request11 req (fst (lookup_subscription svc (subscription_id req))) =
            Inl AttributeError"
      by auto
    from validate_request11_signal [OF this] show False
      by auto
  qed
next
  assume a: "action req \<in> {ACT_PAUSE, ACT_RESUME}
        \<and> validate_request11 req (fst (lookup_subscription svc (subscription_id req))) = Inr ()"
  then have t: "truthy (subscription_id req)"
    and n: "fst (lookup_subscription svc (subscription_id req)) \<noteq> None"
    by (auto simp add: validate_request11_ok)
  from t obtain sid where sid: "subscription_id req = Some sid" "sid \<noteq> []"
    by (cases "subscription_id req") auto
  with n show "\<exists>sub. subscription_id req \<noteq> None
                \<and> fst (get_subscription svc (the (subscription_id req))) = Some sub
                \<and> fst (lookup_subscription svc (subscription_id req)) = Some sub"
    by (auto simp add: lookup_subscription_Some)
next
  show "fst (action_pause svc None) = Inl AttributeError"
    by (simp add: action_pause_def)
  show "fst (action_resume svc None) = Inl AttributeError"
    by (simp add: action_resume_def)
qed

theorem pause_resume_subscription_present_witness:
  "fst (handle_message11 ''g'' service_A (request11_of ACT_PAUSE (Some ''zz'') ''X'' []))
     \<noteq> Inl AttributeError
   \<and> (\<exists>sub. fst (lookup_subscription service_A
                (subscription_id (request11_of ACT_RESUME (Some ''s2'') ''X'' []))) = Some sub)"
proof -
  have h: "action (request11_of ACT_RESUME (Some ''s2'') ''X'' []) \<in> {ACT_PAUSE, ACT_RESUME}
     \<and> validate_request11 (request11_of ACT_RESUME (Some ''s2'') ''X'' [])
         (fst (lookup_subscription service_A
            (subscription_id (request11_of ACT_RESUME (Some ''s2'') ''X'' [])))) = Inr ()"
    by (simp add: validate_request11_ok lookup_subscription_Some service_A_lookup)
  from pause_resume_subscription_present
         [of "''g''" service_A "request11_of ACT_PAUSE (Some ''zz'') ''X'' []", THEN conjunct1]
    pause_resume_subscription_present
         [of "''g''" service_A "request11_of ACT_RESUME (Some ''s2'') ''X'' []",
          THEN conjunct2, THEN conjunct1, THEN mp, OF h]
  show ?thesis by blast
qed

section \<open>The transitions PAUSE, RESUME and UNSUBSCRIBE\<close>

text \<open>
  Claim C4. PAUSE on a subscription that is already PAUSED, and RESUME on one that is not
  PAUSED, return the subscription as it is and leave the service untouched (no call, no
  write). Otherwise PAUSE stores status PAUSED and RESUME stores status ACTIVE: one
  update call is made, the stored record carries the new status, and the subscription
  with the new status is returned. Each transition returns exactly one subscription.
\<close>

theorem pause_resume_transitions:
  "(sub_status sub = PAUSED \<longrightarrow> action_pause svc (Some sub) = (Inr (One sub), svc))
   \<and> (sub_status sub \<noteq> PAUSED \<longrightarrow> action_resume svc (Some sub) = (Inr (One sub), svc))
   \<and> (sub_status sub \<noteq> PAUSED \<and> fst (get_subscription svc sid) = Some sub \<longrightarrow>
        fst (action_pause svc (Some sub)) = Inr (One (sub\<lparr>sub_status := PAUSED\<rparr>))
        \<and> calls (snd (action_pause svc (Some sub))) =
            calls svc @ [UpdateSubscription (Some sid) PAUSED]
        \<and> fst (get_subscription (snd (action_pause svc (Some sub))) sid) =
            Some (sub\<lparr>sub_status := PAUSED\<rparr>))
   \<and> (sub_status sub = PAUSED \<and> fst (get_subscription svc sid) = Some sub \<longrightarrow>
        fst (action_resume svc (Some sub)) = Inr (One (sub\<lparr>sub_status := ACTIVE\<rparr>))
        \<and> calls (snd (action_resume svc (Some sub))) =
            calls svc @ [UpdateSubscription (Some sid) ACTIVE]
        \<and> fst (get_subscription (snd (action_resume svc (Some sub))) sid) =
            Some (sub\<lparr>sub_status := ACTIVE\<rparr>))
   \<and> (\<exists>s. fst (action_pause svc (Some sub)) = Inr (One s))
   \<and> (\<exists>s. fst (action_resume svc (Some sub)) = Inr (One s))"
proof (intro conjI impI)
  show "sub_status sub = PAUSED \<Longrightarrow> action_pause svc (Some sub) = (Inr (One sub), svc)"
    by (simp add: action_pause_def)
  show "sub_status sub \<noteq> PAUSED \<Longrightarrow> action_resume svc (Some sub) = (Inr (One sub), svc)"
    by (simp add: action_resume_def)
  show "\<exists>s. fst (action_pause svc (Some sub)) = Inr (One s)"
    by (simp add: action_pause_def split: prod.split)
  show "\<exists>s. fst (action_resume svc (Some sub)) = Inr (One s)"
    by (simp add: action_resume_def split: prod.split)
next
  assume a: "sub_status sub \<noteq> PAUSED \<and> fst (get_subscription svc sid) = Some sub"
  then have p: "action_pause svc (Some sub) =
      (Inr (One (fst (update_subscription svc sub PAUSED))), snd (update_subscription svc sub PAUSED))"
    by (simp add: action_pause_def split: prod.split)
  from a have k: "sub_subscription_id sub = Some sid"
    using get_subscription_id [of svc sid sub] by simp
  show "fst (action_pause svc (Some sub)) = Inr (One (sub\<lparr>sub_status := PAUSED\<rparr>))"
    by (simp add: p update_subscription_result)
  show "calls (snd (action_pause svc (Some sub))) =
            calls svc @ [UpdateSubscription (Some sid) PAUSED]"
    by (simp add: p update_subscription_calls k)
  show "fst (get_subscription (snd (action_pause svc (Some sub))) sid) =
            Some (sub\<lparr>sub_status := PAUSED\<rparr>)"
    using a by (simp add: p update_subscription_persists)
next
  assume a: "sub_status sub = PAUSED \<and> fst (get_subscription svc sid) = Some sub"
  then have p: "action_resume svc (Some sub) =
      (Inr (One (fst (update_subscription svc sub ACTIVE))), snd (update_subscription svc sub ACTIVE))"
    by (simp add: action_resume_def split: prod.split)
  from a have k: "sub_subscription_id sub = Some sid"
    using get_subscription_id [of svc sid sub] by simp
  show "fst (action_resume svc (Some sub)) = Inr (One (sub\<lparr>sub_status := ACTIVE\<rparr>))"
    by (simp add: p update_subscription_result)
  show "calls (snd (action_resume svc (Some sub))) =
            calls svc @ [UpdateSubscription (Some sid) ACTIVE]"
    by (simp add: p update_subscription_calls k)
  show "fst (get_subscription (snd (action_resume svc (Some sub))) sid) =
            Some (sub\<lparr>sub_status := ACTIVE\<rparr>)"
    using a by (simp add: p update_subscription_persists)
qed

theorem pause_resume_transitions_witness:
  "action_pause service_A (Some (stored ''s2'' PAUSED)) = (Inr (One (stored ''s2'' PAUSED)), service_A)
   \<and> action_resume service_A (Some (stored ''s1'' ACTIVE)) =
       (Inr (One (stored ''s1'' ACTIVE)), service_A)
   \<and> fst (action_pause service_A (Some (stored ''s1'' ACTIVE))) = Inr (One (stored ''s1'' PAUSED))
   \<and> fst (get_subscription (snd (action_pause service_A (Some (stored ''s1'' ACTIVE)))) ''s1'') =
       Some (stored ''s1'' PAUSED)
   \<and> fst (action_resume service_A (Some (stored ''s2'' PAUSED))) = Inr (One (stored ''s2'' ACTIVE))
   \<and> fst (get_subscription (snd (action_resume service_A (Some (stored ''s2'' PAUSED)))) ''s2'') =
       Some (stored ''s2'' ACTIVE)"
  using pause_resume_transitions [of "stored ''s2'' PAUSED" service_A "''s2''"]
    pause_resume_transitions [of "stored ''s1'' ACTIVE" service_A "''s1''"]
  by (simp add: service_A_lookup)

text \<open>
  Claim C2 says that PAUSE and RESUME change nothing on a subscription whose status is
  UNSUBSCRIBED. For PAUSE this fails: the stored subscription \<open>s3\<close> is UNSUBSCRIBED, and
  pausing it issues an update and stores and returns it as PAUSED, through the action
  function and through the version-11 handler alike.
\<close>

theorem pause_revives_unsubscribed:
  "sub_status (stored ''s3'' UNSUBSCRIBED) = UNSUBSCRIBED
   \<and> fst (action_pause service_A (Some (stored ''s3'' UNSUBSCRIBED))) =
       Inr (One (stored ''s3'' PAUSED))
   \<and> calls (snd (action_pause service_A (Some (stored ''s3'' UNSUBSCRIBED)))) =
       [UpdateSubscription (Some ''s3'') PAUSED]
   \<and> subscriptions (snd (action_pause service_A (Some (stored ''s3'' UNSUBSCRIBED)))) =
       [stored ''s1'' ACTIVE, stored ''s2'' PAUSED, stored ''s3'' PAUSED]
   \<and> subscriptions (snd (handle_message11 ''g'' service_A
         (request11_of ACT_PAUSE (Some ''s3'') ''X'' []))) =
       [stored ''s1'' ACTIVE, stored ''s2'' PAUSED, stored ''s3'' PAUSED]"
proof (intro conjI)
  show "subscriptions (snd (handle_message11 ''g'' service_A
         (request11_of ACT_PAUSE (Some ''s3'') ''X'' []))) =
       [stored ''s1'' ACTIVE, stored ''s2'' PAUSED, stored ''s3'' PAUSED]"
    by (simp add: handle_message11_def lookup_subscription_def get_subscription_def
        validate_request11_def retrieve_collection_def get_collection_def
        collection_mismatch_def ACTIONS_def action_pause_def update_subscription_def
        get_polling_services_def called_def service_A_def request11_of_def
        collection_X_def collection_Y_def Let_def)
qed (simp_all add: action_pause_def update_subscription_def called_def service_A_def Let_def)

text \<open>
  Claim C2, amended. On a subscription whose status is UNSUBSCRIBED, RESUME returns it
  unchanged and issues no store update; PAUSE, which is a no-op on a PAUSED subscription
  only, issues one update and returns the subscription with status PAUSED.
\<close>

theorem unsubscribed_transitions:
  assumes "sub_status sub = UNSUBSCRIBED"
  shows "action_resume svc (Some sub) = (Inr (One sub), svc)
     \<and> fst (action_pause svc (Some sub)) = Inr (One (sub\<lparr>sub_status := PAUSED\<rparr>))
     \<and> calls (snd (action_pause svc (Some sub))) =
         calls svc @ [UpdateSubscription (sub_subscription_id sub) PAUSED]"
  using assms
  by (simp add: action_resume_Some action_pause_Some update_subscription_calls)

theorem unsubscribed_transitions_witness:
  "action_resume service_A (Some (stored ''s3'' UNSUBSCRIBED)) =
     (Inr (One (stored ''s3'' UNSUBSCRIBED)), service_A)
   \<and> fst (action_pause service_A (Some (stored ''s3'' UNSUBSCRIBED))) =
       Inr (One (stored ''s3'' PAUSED))"
proof -
  have h: "sub_status (stored ''s3'' UNSUBSCRIBED) = UNSUBSCRIBED" by simp
  from unsubscribed_transitions [OF h, of service_A] show ?thesis by simp
qed

text \<open>
  Claim C5. UNSUBSCRIBE with no subscription found does not fail: the action returns one
  subscription that carries the request's id and status UNSUBSCRIBED, and leaves the
  service as it was. With a subscription found, one update call is made, the stored
  record becomes UNSUBSCRIBED and that subscription is returned. Through either version
  handler, an unsubscribe request for an id the store does not know, naming a collection
  the service has, is answered with a response of exactly one instance with that id (and,
  under version 11, status UNSUBSCRIBED); the handler only reads the store.
\<close>

theorem unsubscribe_unknown_and_known:
  "action_unsubscribe req svc None =
     (Inr (One \<lparr>sub_collection_id = None, sub_subscription_id = request_subscription_id req,
                sub_status = UNSUBSCRIBED, sub_params = None\<rparr>), svc)
   \<and> (fst (get_subscription svc sid) = Some sub \<longrightarrow>
        fst (action_unsubscribe req svc (Some sub)) =
          Inr (One (sub\<lparr>sub_status := UNSUBSCRIBED\<rparr>))
        \<and> calls (snd (action_unsubscribe req svc (Some sub))) =
            calls svc @ [UpdateSubscription (Some sid) UNSUBSCRIBED]
        \<and> fst (get_subscription (snd (action_unsubscribe req svc (Some sub))) sid) =
            Some (sub\<lparr>sub_status := UNSUBSCRIBED\<rparr>))
   \<and> (action r11 = ACT_UNSUBSCRIBE \<and> subscription_id r11 = Some sid \<and> sid \<noteq> []
        \<and> fst (get_subscription svc sid) = None
        \<and> fst (get_collection svc (collection_name r11)) = Some coll \<longrightarrow>
        handle_message11 g svc r11 =
          (Inr \<lparr>resp11_message_id = g, resp11_in_response_to = message_id r11,
                resp11_collection_name = coll_name coll,
                resp11_message = subscription_message svc,
                resp11_subscription_instances =
                  [\<lparr>inst_subscription_id = Some sid, inst_status = Some UNSUBSCRIBED,
                    inst_subscription_parameters = None,
                    inst_poll_instances = concat (polling svc (coll_id coll))\<rparr>]\<rparr>,
           svc\<lparr>calls := calls svc @ [GetSubscription sid, GetCollection (collection_name r11),
                                      GetPollingServices (coll_id coll)]\<rparr>))
   \<and> (action r10 = ACT_UNSUBSCRIBE \<and> subscription_id r10 = Some sid \<and> sid \<noteq> []
        \<and> fst (get_subscription svc sid) = None
        \<and> fst (get_collection svc (feed_name r10)) = Some coll \<longrightarrow>
        handle_message10 g svc r10 =
          (Inr \<lparr>resp10_message_id = g, resp10_in_response_to = message_id r10,
                resp10_feed_name = coll_name coll,
                resp10_message = subscription_message svc,
                resp10_subscription_instances =
                  [\<lparr>inst_subscription_id = Some sid, inst_status = None,
                    inst_subscription_parameters = None,
                    inst_poll_instances = concat (polling svc (coll_id coll))\<rparr>]\<rparr>,
           svc\<lparr>calls := calls svc @ [GetCollection (feed_name r10), GetSubscription sid,
                                      GetPollingServices (coll_id coll)]\<rparr>))"
proof (intro conjI impI)
  show "action_unsubscribe req svc None =
     (Inr (One \<lparr>sub_collection_id = None, sub_subscription_id = request_subscription_id req,
                sub_status = UNSUBSCRIBED, sub_params = None\<rparr>), svc)"
    by (rule action_unsubscribe_None)
next
  assume a: "fst (get_subscription svc sid) = Some sub"
  then have k: "sub_subscription_id sub = Some sid" by (rule get_subscription_id)
  show "fst (action_unsubscribe req svc (Some sub)) = Inr (One (sub\<lparr>sub_status := UNSUBSCRIBED\<rparr>))"
    by (simp add: action_unsubscribe_Some)
  show "calls (snd (action_unsubscribe req svc (Some sub))) =
            calls svc @ [UpdateSubscription (Some sid) UNSUBSCRIBED]"
    by (simp add: action_unsubscribe_Some update_subscription_calls k)
  show "fst (get_subscription (snd (action_unsubscribe req svc (Some sub))) sid) =
            Some (sub\<lparr>sub_status := UNSUBSCRIBED\<rparr>)"
    using a by (simp add: action_unsubscribe_Some update_subscription_persists)
next
  assume a: "action r11 = ACT_UNSUBSCRIBE \<and> subscription_id r11 = Some sid \<and> sid \<noteq> []
        \<and> fst (get_subscription svc sid) = None
        \<and> fst (get_collection svc (collection_name r11)) = Some coll"
  then have v: "validate_request11 r11 None = Inr ()"
    by (simp add: validate_request11_ok)
  from a v show "handle_message11 g svc r11 =
          (Inr \<lparr>resp11_message_id = g, resp11_in_response_to = message_id r11,
                resp11_collection_name = coll_name coll,
                resp11_message = subscription_message svc,
                resp11_subscription_instances =
                  [\<lparr>inst_subscription_id = Some sid, inst_status = Some UNSUBSCRIBED,
                    inst_subscription_parameters = None,
                    inst_poll_instances = concat (polling svc (coll_id coll))\<rparr>]\<rparr>,
           svc\<lparr>calls := calls svc @ [GetSubscription sid, GetCollection (collection_name r11),
                                      GetPollingServices (coll_id coll)]\<rparr>)"
    by (simp add: handle_message11_def lookup_subscription_eq retrieve_collection_eq
        collection_mismatch_def ACTIONS_lookup action_unsubscribe_None
        get_polling_services_def subscription_to_subscription_instance_def
        split_beta called_def)
next
  assume a: "action r10 = ACT_UNSUBSCRIBE \<and> subscription_id r10 = Some sid \<and> sid \<noteq> []
        \<and> fst (get_subscription svc sid) = None
        \<and> fst (get_collection svc (feed_name r10)) = Some coll"
  then have v: "validate_request10 r10 = Inr ()"
    by (simp add: validate_request10_ok)
  from a v show "handle_message10 g svc r10 =
          (Inr \<lparr>resp10_message_id = g, resp10_in_response_to = message_id r10,
                resp10_feed_name = coll_name coll,
                resp10_message = subscription_message svc,
                resp10_subscription_instances =
                  [\<lparr>inst_subscription_id = Some sid, inst_status = None,
                    inst_subscription_parameters = None,
                    inst_poll_instances = concat (polling svc (coll_id coll))\<rparr>]\<rparr>,
           svc\<lparr>calls := calls svc @ [GetCollection (feed_name r10), GetSubscription sid,
                                      GetPollingServices (coll_id coll)]\<rparr>)"
    by (simp add: handle_message10_def lookup_subscription_eq retrieve_collection_eq
        collection_mismatch_def ACTIONS_lookup action_unsubscribe_None
        get_polling_services_def subscription_to_subscription_instance_def
        split_beta called_def)
qed

theorem unsubscribe_unknown_and_known_witness:
  "fst (action_unsubscribe (ManageCollectionSubscriptionRequest
          (request11_of ACT_UNSUBSCRIBE (Some ''s1'') ''X'' [])) service_A
          (Some (stored ''s1'' ACTIVE))) = Inr (One (stored ''s1'' UNSUBSCRIBED))
   \<and> fst (get_subscription
        (snd (action_unsubscribe (ManageCollectionSubscriptionRequest
          (request11_of ACT_UNSUBSCRIBE (Some ''s1'') ''X'' [])) service_A
          (Some (stored ''s1'' ACTIVE)))) ''s1'') = Some (stored ''s1'' UNSUBSCRIBED)
   \<and> fst (handle_message11 ''g'' service_A (request11_of ACT_UNSUBSCRIBE (Some ''zz'') ''X'' [])) =
       Inr \<lparr>resp11_message_id = ''g'', resp11_in_response_to = ''m1'',
            resp11_collection_name = ''X'', resp11_message = Some ''hello'',
            resp11_subscription_instances =
              [\<lparr>inst_subscription_id = Some ''zz'', inst_status = Some UNSUBSCRIBED,
                inst_subscription_parameters = None,
                inst_poll_instances = [(''http'', ''/poll'')]\<rparr>]\<rparr>
   \<and> subscriptions (snd (handle_message11 ''g'' service_A
         (request11_of ACT_UNSUBSCRIBE (Some ''zz'') ''X'' []))) = subscriptions service_A
   \<and> fst (handle_message10 ''g'' service_A (request10_of ACT_UNSUBSCRIBE (Some ''zz'') ''X'')) =
       Inr \<lparr>resp10_message_id = ''g'', resp10_in_response_to = ''m1'',
            resp10_feed_name = ''X'', resp10_message = Some ''hello'',
            resp10_subscription_instances =
              [\<lparr>inst_subscription_id = Some ''zz'', inst_status = None,
                inst_subscription_parameters = None,
                inst_poll_instances = [(''http'', ''/poll'')]\<rparr>]\<rparr>
   \<and> subscriptions (snd (handle_message10 ''g'' service_A
         (request10_of ACT_UNSUBSCRIBE (Some ''zz'') ''X''))) = subscriptions service_A"
  using unsubscribe_unknown_and_known
    [where svc = service_A and sid = "''s1''" and sub = "stored ''s1'' ACTIVE"
       and req = "ManageCollectionSubscriptionRequest
                    (request11_of ACT_UNSUBSCRIBE (Some ''s1'') ''X'' [])",
     THEN conjunct2, THEN conjunct1]
    unsubscribe_unknown_and_known
    [where svc = service_A and sid = "''zz''" and g = "''g''" and coll = collection_X
       and ?r11.0 = "request11_of ACT_UNSUBSCRIBE (Some ''zz'') ''X'' []"
       and ?r10.0 = "request10_of ACT_UNSUBSCRIBE (Some ''zz'') ''X''",
     THEN conjunct2, THEN conjunct2]
  by (simp add: service_A_lookup service_A_collections)

section \<open>BAD_MESSAGE and the store\<close>

text \<open>
  Claim C3 says that no store access precedes a BAD_MESSAGE in either handler. The
  version-11 handler looks the subscription up before it validates: a request with an
  unknown action and a subscription id ends in BAD_MESSAGE after one
  \<^verbatim>\<open>get_subscription\<close> call.
\<close>

theorem bad_message_after_lookup:
  "fst (handle_message11 ''g'' service_A (request11_of ''BOGUS'' (Some ''s1'') ''X'' [])) =
     Inl (StatusMessageException ST_BAD_MESSAGE (Some ''The specified action was invalid'')
            ''m1'' None)
   \<and> calls service_A = []
   \<and> calls (snd (handle_message11 ''g'' service_A (request11_of ''BOGUS'' (Some ''s1'') ''X'' []))) =
       [GetSubscription ''s1'']"
  by (simp add: handle_message11_def lookup_subscription_eq validate_request11_def
      get_subscription_eq Let_def ACT_SUBSCRIBE_def ACT_UNSUBSCRIBE_def ACT_PAUSE_def
      ACT_RESUME_def ACT_STATUS_def ACT_TYPES_11_def)

text \<open>
  Claim C3, amended. A version-10 request that ends in BAD_MESSAGE leaves the service
  untouched: no call was made. A version-11 request that ends in BAD_MESSAGE has made no
  collection lookup and no write; the one call that can precede it is the lookup of the
  subscription, made when the request carries a subscription id (so a BAD_MESSAGE for a
  missing id follows no call at all).
\<close>

theorem bad_message_store_access:
  "(fst (handle_message10 g svc r10) = Inl (StatusMessageException ST_BAD_MESSAGE m i d) \<longrightarrow>
      snd (handle_message10 g svc r10) = svc)
   \<and> (fst (handle_message11 g svc r11) = Inl (StatusMessageException ST_BAD_MESSAGE m i d) \<longrightarrow>
      snd (handle_message11 g svc r11) =
        (case subscription_id r11 of
           None \<Rightarrow> svc
         | Some sid \<Rightarrow> if sid \<noteq> [] then svc\<lparr>calls := calls svc @ [GetSubscription sid]\<rparr> else svc))"
proof (intro conjI impI)
  assume "fst (handle_message10 g svc r10) = Inl (StatusMessageException ST_BAD_MESSAGE m i d)"
  from handle_message10_failure [OF this] show "snd (handle_message10 g svc r10) = svc"
    by auto
next
  assume "fst (handle_message11 g svc r11) = Inl (StatusMessageException ST_BAD_MESSAGE m i d)"
  from handle_message11_failure [OF this]
  have "snd (handle_message11 g svc r11) = snd (lookup_subscription svc (subscription_id r11))"
    by auto
  then show "snd (handle_message11 g svc r11) =
        (case subscription_id r11 of
           None \<Rightarrow> svc
         | Some sid \<Rightarrow> if sid \<noteq> [] then svc\<lparr>calls := calls svc @ [GetSubscription sid]\<rparr> else svc)"
    by (simp add: lookup_subscription_def called_def split: option.split)
qed

theorem bad_message_store_access_witness:
  "snd (handle_message10 ''g'' service_A (request10_of ACT_PAUSE (Some ''s1'') ''X'')) = service_A
   \<and> snd (handle_message11 ''g'' service_A (request11_of ACT_PAUSE None ''X'' [])) = service_A
   \<and> snd (handle_message11 ''g'' service_A (request11_of ''BOGUS'' (Some ''s1'') ''X'' [])) =
       service_A\<lparr>calls := [GetSubscription ''s1'']\<rparr>"
proof -
  have 1: "fst (handle_message10 ''g'' service_A (request10_of ACT_PAUSE (Some ''s1'') ''X'')) =
      Inl (StatusMessageException ST_BAD_MESSAGE (Some ''The specified action was invalid'')
             ''m1'' None)"
    by (simp add: handle_message10_def validate_request10_illegal)
  have 2: "fst (handle_message11 ''g'' service_A (request11_of ACT_PAUSE None ''X'' [])) =
      Inl (StatusMessageException ST_BAD_MESSAGE (Some (requires_id_message ACT_PAUSE))
             ''m1'' None)"
    by (simp add: handle_message11_def lookup_subscription_eq validate_request11_missing_id)
  have 3: "fst (handle_message11 ''g'' service_A (request11_of ''BOGUS'' (Some ''s1'') ''X'' [])) =
     Inl (StatusMessageException ST_BAD_MESSAGE (Some ''The specified action was invalid'')
            ''m1'' None)"
    by (simp add: handle_message11_def lookup_subscription_eq validate_request11_def
      get_subscription_eq Let_def ACT_SUBSCRIBE_def ACT_UNSUBSCRIBE_def ACT_PAUSE_def
      ACT_RESUME_def ACT_STATUS_def ACT_TYPES_11_def)
  from bad_message_store_access [THEN conjunct1, THEN mp, OF 1]
    bad_message_store_access [THEN conjunct2, THEN mp, OF 2]
    bad_message_store_access [THEN conjunct2, THEN mp, OF 3]
  show ?thesis by simp
qed

text \<open>
  Claim C8. The version-10 handler answers PAUSE and RESUME with BAD_MESSAGE, before any
  call to the service, although the action is in the version-11 set and a version-11
  request with the same action and a subscription id passes validation. Under version 10
  only UNSUBSCRIBE needs a subscription id: without one it is answered with BAD_MESSAGE
  before any lookup, while SUBSCRIBE and STATUS pass validation with or without an id.
\<close>

theorem version10_legality:
  "(action r10 \<in> {ACT_PAUSE, ACT_RESUME} \<longrightarrow>
      handle_message10 g svc r10 =
        (Inl (StatusMessageException ST_BAD_MESSAGE (Some ''The specified action was invalid'')
                (message_id r10) None), svc)
      \<and> action r10 \<in> set ACT_TYPES_11
      \<and> (action r11 = action r10 \<and> truthy (subscription_id r11) \<longrightarrow>
           validate_request11 r11 (Some sub) = Inr ()))
   \<and> (action r10 = ACT_UNSUBSCRIBE \<and> \<not> truthy (subscription_id r10) \<longrightarrow>
      handle_message10 g svc r10 =
        (Inl (StatusMessageException ST_BAD_MESSAGE
                (Some (requires_id_message ACT_UNSUBSCRIBE)) (message_id r10) None), svc))
   \<and> (action r10 \<in> {ACT_SUBSCRIBE, ACT_STATUS} \<longrightarrow> validate_request10 r10 = Inr ())"
proof (intro conjI impI)
  assume "action r10 \<in> {ACT_PAUSE, ACT_RESUME}"
  then have "action r10 \<notin> set ACT_TYPES_10" by auto
  then show "handle_message10 g svc r10 =
        (Inl (StatusMessageException ST_BAD_MESSAGE (Some ''The specified action was invalid'')
                (message_id r10) None), svc)"
    by (simp add: handle_message10_def validate_request10_illegal)
next
  assume "action r10 \<in> {ACT_PAUSE, ACT_RESUME}"
  then show "action r10 \<in> set ACT_TYPES_11" by auto
next
  assume "action r10 \<in> {ACT_PAUSE, ACT_RESUME}"
    and "action r11 = action r10 \<and> truthy (subscription_id r11)"
  then show "validate_request11 r11 (Some sub) = Inr ()"
    by (auto simp add: validate_request11_ok)
next
  assume "action r10 = ACT_UNSUBSCRIBE \<and> \<not> truthy (subscription_id r10)"
  then show "handle_message10 g svc r10 =
        (Inl (StatusMessageException ST_BAD_MESSAGE
                (Some (requires_id_message ACT_UNSUBSCRIBE)) (message_id r10) None), svc)"
    by (simp add: handle_message10_def validate_request10_missing_id)
next
  assume "action r10 \<in> {ACT_SUBSCRIBE, ACT_STATUS}"
  then show "validate_request10 r10 = Inr ()"
    by (auto simp add: validate_request10_ok)
qed

theorem version10_legality_witness:
  "handle_message10 ''g'' service_A (request10_of ACT_PAUSE (Some ''s1'') ''X'') =
     (Inl (StatusMessageException ST_BAD_MESSAGE (Some ''The specified action was invalid'')
             ''m1'' None), service_A)
   \<and> validate_request11 (request11_of ACT_PAUSE (Some ''s1'') ''X'' [])
       (Some (stored ''s1'' ACTIVE)) = Inr ()
   \<and> handle_message10 ''g'' service_A (request10_of ACT_UNSUBSCRIBE None ''X'') =
     (Inl (StatusMessageException ST_BAD_MESSAGE (Some (requires_id_message ACT_UNSUBSCRIBE))
             ''m1'' None), service_A)
   \<and> validate_request10 (request10_of ACT_STATUS None ''X'') = Inr ()"
proof -
  have h1: "action (request10_of ACT_PAUSE (Some ''s1'') ''X'') \<in> {ACT_PAUSE, ACT_RESUME}"
    by simp
  have h1b: "action (request11_of ACT_PAUSE (Some ''s1'') ''X'' []) =
              action (request10_of ACT_PAUSE (Some ''s1'') ''X'')
            \<and> truthy (subscription_id (request11_of ACT_PAUSE (Some ''s1'') ''X'' []))"
    by simp
  have h2: "action (request10_of ACT_UNSUBSCRIBE None ''X'') = ACT_UNSUBSCRIBE
           \<and> \<not> truthy (subscription_id (request10_of ACT_UNSUBSCRIBE None ''X''))"
    by simp
  have h3: "action (request10_of ACT_STATUS None ''X'') \<in> {ACT_SUBSCRIBE, ACT_STATUS}"
    by simp
  note t1 = version10_legality
    [where ?r10.0 = "request10_of ACT_PAUSE (Some ''s1'') ''X''" and g = "''g''"
       and svc = service_A and ?r11.0 = "request11_of ACT_PAUSE (Some ''s1'') ''X'' []"
       and sub = "stored ''s1'' ACTIVE", THEN conjunct1, THEN mp, OF h1]
  from t1 [THEN conjunct1] t1 [THEN conjunct2, THEN conjunct2, THEN mp, OF h1b]
    version10_legality
      [where ?r10.0 = "request10_of ACT_UNSUBSCRIBE None ''X''" and g = "''g''"
         and svc = service_A, THEN conjunct2, THEN conjunct1, THEN mp, OF h2]
    version10_legality
      [where ?r10.0 = "request10_of ACT_STATUS None ''X''",
       THEN conjunct2, THEN conjunct2, THEN mp, OF h3]
  show ?thesis by simp
qed

section \<open>Content negotiation\<close>

text \<open>
  Claim C6. Under version 11, SUBSCRIBE with no content binding creates a subscription
  whose accepted list is empty; SUBSCRIBE with bindings none of which the collection
  supports raises UNSUPPORTED_CONTENT_BINDING with the detail
  \<open>{supported_content: the collection's supported list}\<close>, answering the request's
  message id, and creates nothing. Under version 10 SUBSCRIBE always creates a
  subscription with an empty list. The version-10 handler never raises
  UNSUPPORTED_CONTENT_BINDING, and the version-11 handler raises it on SUBSCRIBE only.
\<close>

theorem content_negotiation:
  "(sp_content_bindings (subscription_parameters r11) = [] \<longrightarrow>
      fst (action_subscribe (ManageCollectionSubscriptionRequest r11) svc coll 11) =
        Inr (One \<lparr>sub_collection_id = Some (coll_id coll),
                  sub_subscription_id = Some (assign_id svc (subscriptions svc)),
                  sub_status = ACTIVE,
                  sub_params = Some \<lparr>prp_response_type =
                      Some (sp_response_type (subscription_parameters r11)),
                    prp_content_bindings = []\<rparr>\<rparr>))
   \<and> (sp_content_bindings (subscription_parameters r11) \<noteq> []
        \<and> set (sp_content_bindings (subscription_parameters r11))
             \<inter> set (coll_supported_content coll) = {} \<longrightarrow>
      action_subscribe (ManageCollectionSubscriptionRequest r11) svc coll 11 =
        (Inl (StatusMessageException ST_UNSUPPORTED_CONTENT_BINDING None (message_id r11)
                (Some [(SD_SUPPORTED_CONTENT, DList (coll_supported_content coll))])), svc))
   \<and> (action r11 = ACT_SUBSCRIBE \<and> \<not> truthy (subscription_id r11)
        \<and> fst (get_collection svc (collection_name r11)) = Some coll
        \<and> sp_content_bindings (subscription_parameters r11) \<noteq> []
        \<and> set (sp_content_bindings (subscription_parameters r11))
             \<inter> set (coll_supported_content coll) = {} \<longrightarrow>
      handle_message11 g svc r11 =
        (Inl (StatusMessageException ST_UNSUPPORTED_CONTENT_BINDING None (message_id r11)
                (Some [(SD_SUPPORTED_CONTENT, DList (coll_supported_content coll))])),
         svc\<lparr>calls := calls svc @ [GetCollection (collection_name r11)]\<rparr>))
   \<and> fst (action_subscribe req svc coll 10) =
        Inr (One \<lparr>sub_collection_id = Some (coll_id coll),
                  sub_subscription_id = Some (assign_id svc (subscriptions svc)),
                  sub_status = ACTIVE,
                  sub_params = Some \<lparr>prp_response_type = None, prp_content_bindings = []\<rparr>\<rparr>)
   \<and> fst (handle_message10 g svc r10) \<noteq>
        Inl (StatusMessageException ST_UNSUPPORTED_CONTENT_BINDING m i d)
   \<and> (fst (handle_message11 g svc r11) =
        Inl (StatusMessageException ST_UNSUPPORTED_CONTENT_BINDING m i d) \<longrightarrow>
      action r11 = ACT_SUBSCRIBE)"
proof (intro conjI impI)
  assume "sp_content_bindings (subscription_parameters r11) = []"
  then show "fst (action_subscribe (ManageCollectionSubscriptionRequest r11) svc coll 11) =
        Inr (One \<lparr>sub_collection_id = Some (coll_id coll),
                  sub_subscription_id = Some (assign_id svc (subscriptions svc)),
                  sub_status = ACTIVE,
                  sub_params = Some \<lparr>prp_response_type =
                      Some (sp_response_type (subscription_parameters r11)),
                    prp_content_bindings = []\<rparr>\<rparr>)"
    by (simp add: action_subscribe_11 create_subscription_eq get_matching_bindings_def)
next
  assume a: "sp_content_bindings (subscription_parameters r11) \<noteq> []
        \<and> set (sp_content_bindings (subscription_parameters r11))
             \<inter> set (coll_supported_content coll) = {}"
  then have "get_matching_bindings coll (sp_content_bindings (subscription_parameters r11)) = []"
    by (auto simp add: get_matching_bindings_def filter_empty_conv)
  with a show "action_subscribe (ManageCollectionSubscriptionRequest r11) svc coll 11 =
        (Inl (StatusMessageException ST_UNSUPPORTED_CONTENT_BINDING None (message_id r11)
                (Some [(SD_SUPPORTED_CONTENT, DList (coll_supported_content coll))])), svc)"
    by (simp add: action_subscribe_11)
next
  assume a: "action r11 = ACT_SUBSCRIBE \<and> \<not> truthy (subscription_id r11)
        \<and> fst (get_collection svc (collection_name r11)) = Some coll
        \<and> sp_content_bindings (subscription_parameters r11) \<noteq> []
        \<and> set (sp_content_bindings (subscription_parameters r11))
             \<inter> set (coll_supported_content coll) = {}"
  then have e: "get_matching_bindings coll (sp_content_bindings (subscription_parameters r11)) = []"
    by (auto simp add: get_matching_bindings_def filter_empty_conv)
  from a have l: "lookup_subscription svc (subscription_id r11) = (None, svc)"
    by (simp add: lookup_subscription_falsy)
  from a have v: "validate_request11 r11 None = Inr ()"
    by (simp add: validate_request11_ok)
  from a have m: "map_of ACTIONS (action r11) =
      Some (\<lambda>req svc coll subscription version. action_subscribe req svc coll version)"
    by (simp add: ACTIONS_lookup)
  from a e show "handle_message11 g svc r11 =
        (Inl (StatusMessageException ST_UNSUPPORTED_CONTENT_BINDING None (message_id r11)
                (Some [(SD_SUPPORTED_CONTENT, DList (coll_supported_content coll))])),
         svc\<lparr>calls := calls svc @ [GetCollection (collection_name r11)]\<rparr>)"
    unfolding handle_message11_valid [OF l v m]
    by (simp add: action_subscribe_11 collection_mismatch_def called_def)
next
  show "fst (action_subscribe req svc coll 10) =
        Inr (One \<lparr>sub_collection_id = Some (coll_id coll),
                  sub_subscription_id = Some (assign_id svc (subscriptions svc)),
                  sub_status = ACTIVE,
                  sub_params = Some \<lparr>prp_response_type = None, prp_content_bindings = []\<rparr>\<rparr>)"
    by (simp add: action_subscribe_10 create_subscription_eq)
next
  show "fst (handle_message10 g svc r10) \<noteq>
        Inl (StatusMessageException ST_UNSUPPORTED_CONTENT_BINDING m i d)"
  proof
    assume "fst (handle_message10 g svc r10) =
        Inl (StatusMessageException ST_UNSUPPORTED_CONTENT_BINDING m i d)"
    from handle_message10_failure [OF this] show False
      by (auto simp add: validate_request10_def Let_def split: if_splits)
  qed
next
  assume "fst (handle_message11 g svc r11) =
        Inl (StatusMessageException ST_UNSUPPORTED_CONTENT_BINDING m i d)"
  from handle_message11_failure [OF this] show "action r11 = ACT_SUBSCRIBE"
    by (auto dest: validate_request11_signal)
qed

theorem content_negotiation_witness:
  "fst (action_subscribe (ManageCollectionSubscriptionRequest
          (request11_of ACT_SUBSCRIBE None ''X'' [])) service_A collection_X 11) =
     Inr (One \<lparr>sub_collection_id = Some 1, sub_subscription_id = Some ''new'',
               sub_status = ACTIVE,
               sub_params = Some \<lparr>prp_response_type = Some ''FULL'',
                                   prp_content_bindings = []\<rparr>\<rparr>)
   \<and> handle_message11 ''g'' service_A (request11_of ACT_SUBSCRIBE None ''Y'' [''B'']) =
       (Inl (StatusMessageException ST_UNSUPPORTED_CONTENT_BINDING None ''m1''
               (Some [(SD_SUPPORTED_CONTENT, DList [''A''])])),
        service_A\<lparr>calls := [GetCollection ''Y'']\<rparr>)"
proof -
  have 1: "sp_content_bindings (subscription_parameters
             (request11_of ACT_SUBSCRIBE None ''X'' [])) = []"
    by simp
  have 2: "action (request11_of ACT_SUBSCRIBE None ''Y'' [''B'']) = ACT_SUBSCRIBE
     \<and> \<not> truthy (subscription_id (request11_of ACT_SUBSCRIBE None ''Y'' [''B'']))
     \<and> fst (get_collection service_A
              (collection_name (request11_of ACT_SUBSCRIBE None ''Y'' [''B'']))) =
         Some collection_Y
     \<and> sp_content_bindings (subscription_parameters
          (request11_of ACT_SUBSCRIBE None ''Y'' [''B''])) \<noteq> []
     \<and> set (sp_content_bindings (subscription_parameters
               (request11_of ACT_SUBSCRIBE None ''Y'' [''B''])))
          \<inter> set (coll_supported_content collection_Y) = {}"
    by (simp add: service_A_collections)
  from content_negotiation
         [where ?r11.0 = "request11_of ACT_SUBSCRIBE None ''X'' []" and svc = service_A
            and coll = collection_X, THEN conjunct1, THEN mp, OF 1]
    content_negotiation
         [where ?r11.0 = "request11_of ACT_SUBSCRIBE None ''Y'' [''B'']" and svc = service_A
            and coll = collection_Y and g = "''g''",
          THEN conjunct2, THEN conjunct2, THEN conjunct1, THEN mp, OF 2]
  show ?thesis by (simp add: service_A_def)
qed

section \<open>Collection mismatch\<close>

text \<open>
  Claim C7. In both handlers, a request with an action of the handler's version that
  names an existing collection and the id of a stored subscription of another collection
  is answered with NOT_FOUND and the detail \<open>{item: requested name}\<close>, whatever the
  subscription's status; the handler has only made its two lookups. (A request whose
  action is outside the version's set is rejected by validation before the collection is
  looked up.)
\<close>

theorem collection_mismatch_not_found:
  "(action r11 \<in> set ACT_TYPES_11 \<and> subscription_id r11 = Some sid \<and> sid \<noteq> []
      \<and> fst (get_subscription svc sid) = Some sub
      \<and> fst (get_collection svc (collection_name r11)) = Some coll
      \<and> sub_collection_id sub \<noteq> Some (coll_id coll) \<longrightarrow>
      handle_message11 g svc r11 =
        (Inl (StatusMessageException ST_NOT_FOUND None (message_id r11)
                (Some [(SD_ITEM, DStr (collection_name r11))])),
         svc\<lparr>calls := calls svc @ [GetSubscription sid, GetCollection (collection_name r11)]\<rparr>))
   \<and> (action r10 \<in> set ACT_TYPES_10 \<and> subscription_id r10 = Some sid \<and> sid \<noteq> []
      \<and> fst (get_subscription svc sid) = Some sub
      \<and> fst (get_collection svc (feed_name r10)) = Some coll
      \<and> sub_collection_id sub \<noteq> Some (coll_id coll) \<longrightarrow>
      handle_message10 g svc r10 =
        (Inl (StatusMessageException ST_NOT_FOUND None (message_id r10)
                (Some [(SD_ITEM, DStr (feed_name r10))])),
         svc\<lparr>calls := calls svc @ [GetCollection (feed_name r10), GetSubscription sid]\<rparr>))"
proof (intro conjI impI)
  assume a: "action r11 \<in> set ACT_TYPES_11 \<and> subscription_id r11 = Some sid \<and> sid \<noteq> []
      \<and> fst (get_subscription svc sid) = Some sub
      \<and> fst (get_collection svc (collection_name r11)) = Some coll
      \<and> sub_collection_id sub \<noteq> Some (coll_id coll)"
  then have v: "validate_request11 r11 (Some sub) = Inr ()"
    by (simp add: validate_request11_ok)
  from a v show "handle_message11 g svc r11 =
        (Inl (StatusMessageException ST_NOT_FOUND None (message_id r11)
                (Some [(SD_ITEM, DStr (collection_name r11))])),
         svc\<lparr>calls := calls svc @ [GetSubscription sid, GetCollection (collection_name r11)]\<rparr>)"
    by (simp add: handle_message11_def lookup_subscription_eq retrieve_collection_eq
        collection_mismatch_def split_beta called_def)
next
  assume a: "action r10 \<in> set ACT_TYPES_10 \<and> subscription_id r10 = Some sid \<and> sid \<noteq> []
      \<and> fst (get_subscription svc sid) = Some sub
      \<and> fst (get_collection svc (feed_name r10)) = Some coll
      \<and> sub_collection_id sub \<noteq> Some (coll_id coll)"
  then have v: "validate_request10 r10 = Inr ()"
    by (simp add: validate_request10_ok)
  from a v show "handle_message10 g svc r10 =
        (Inl (StatusMessageException ST_NOT_FOUND None (message_id r10)
                (Some [(SD_ITEM, DStr (feed_name r10))])),
         svc\<lparr>calls := calls svc @ [GetCollection (feed_name r10), GetSubscription sid]\<rparr>)"
    by (simp add: handle_message10_def lookup_subscription_eq retrieve_collection_eq
        collection_mismatch_def split_beta called_def)
qed

theorem collection_mismatch_not_found_witness:
  "handle_message11 ''g'' service_A (request11_of ACT_PAUSE (Some ''s1'') ''Y'' []) =
     (Inl (StatusMessageException ST_NOT_FOUND None ''m1'' (Some [(SD_ITEM, DStr ''Y'')])),
      service_A\<lparr>calls := [GetSubscription ''s1'', GetCollection ''Y'']\<rparr>)
   \<and> handle_message10 ''g'' service_A (request10_of ACT_STATUS (Some ''s1'') ''Y'') =
     (Inl (StatusMessageException ST_NOT_FOUND None ''m1'' (Some [(SD_ITEM, DStr ''Y'')])),
      service_A\<lparr>calls := [GetCollection ''Y'', GetSubscription ''s1'']\<rparr>)"
  using collection_mismatch_not_found
    [where svc = service_A and sid = "''s1''" and g = "''g''" and coll = collection_Y
       and sub = "stored ''s1'' ACTIVE"
       and ?r11.0 = "request11_of ACT_PAUSE (Some ''s1'') ''Y'' []"
       and ?r10.0 = "request10_of ACT_STATUS (Some ''s1'') ''Y''"]
  by (simp add: service_A_lookup service_A_collections)

section \<open>Subscription parameters in the response\<close>

text \<open>
  Claim C9 says that under version 11 only the instance of a SUBSCRIBE result carries
  subscription parameters. The handler passes \<^verbatim>\<open>s.params\<close> for every result: after a
  SUBSCRIBE that negotiated the binding \<open>B\<close>, a PAUSE of the new subscription returns an
  instance with the same parameters.
\<close>

theorem paused_instance_carries_parameters:
  "fst (handle_message11 ''g1'' service_A (request11_of ACT_SUBSCRIBE None ''X'' [''B'', ''C''])) =
     Inr \<lparr>resp11_message_id = ''g1'', resp11_in_response_to = ''m1'',
          resp11_collection_name = ''X'', resp11_message = Some ''hello'',
          resp11_subscription_instances =
            [\<lparr>inst_subscription_id = Some ''new'', inst_status = Some ACTIVE,
              inst_subscription_parameters =
                Some \<lparr>prp_response_type = Some ''FULL'', prp_content_bindings = [''B'']\<rparr>,
              inst_poll_instances = [(''http'', ''/poll'')]\<rparr>]\<rparr>
   \<and> fst (handle_message11 ''g2''
        (snd (handle_message11 ''g1'' service_A
                (request11_of ACT_SUBSCRIBE None ''X'' [''B'', ''C''])))
        (request11_of ACT_PAUSE (Some ''new'') ''X'' [])) =
     Inr \<lparr>resp11_message_id = ''g2'', resp11_in_response_to = ''m1'',
          resp11_collection_name = ''X'', resp11_message = Some ''hello'',
          resp11_subscription_instances =
            [\<lparr>inst_subscription_id = Some ''new'', inst_status = Some PAUSED,
              inst_subscription_parameters =
                Some \<lparr>prp_response_type = Some ''FULL'', prp_content_bindings = [''B'']\<rparr>,
              inst_poll_instances = [(''http'', ''/poll'')]\<rparr>]\<rparr>"
  by (simp add: handle_message11_def lookup_subscription_def get_subscription_def
      validate_request11_def retrieve_collection_def get_collection_def
      collection_mismatch_def ACTIONS_def action_pause_def action_subscribe_def
      update_subscription_def create_subscription_def parse_content_bindings_def
      get_matching_bindings_def get_supported_content_def
      subscription_to_subscription_instance_def
      get_polling_services_def called_def service_A_def request11_of_def
      collection_X_def collection_Y_def stored_def Let_def)

text \<open>
  Claim C9, amended. Under version 11 every instance of every response carries the poll
  parameters of its result subscription, whatever the action: the list of instance
  parameters is the list of \<^verbatim>\<open>params\<close> of the action's results. For SUBSCRIBE that is
  the parameters just negotiated (also with an empty list of bindings); for UNSUBSCRIBE,
  PAUSE, RESUME and STATUS of a stored subscription the parameters stored with it; for
  STATUS without an id the stored parameters of every subscription of the service, in
  order; only the unstored subscription that answers an UNSUBSCRIBE of an unknown id has
  none. Under version 10 no instance carries parameters.
\<close>

theorem instance_parameters:
  "(fst (handle_message11 g svc r11) = Inr resp \<longrightarrow>
      (\<exists>act coll result.
          map_of ACTIONS (action r11) = Some act
        \<and> fst (get_collection svc (collection_name r11)) = Some coll
        \<and> fst (act (ManageCollectionSubscriptionRequest r11)
                 (called (snd (lookup_subscription svc (subscription_id r11)))
                    (GetCollection (collection_name r11)))
                 coll (fst (lookup_subscription svc (subscription_id r11))) 11) = Inr result
        \<and> map inst_subscription_parameters (resp11_subscription_instances resp) =
            map sub_params (as_results result)))
   \<and> (fst (handle_message11 g svc r11) = Inr resp
        \<and> fst (get_collection svc (collection_name r11)) = Some coll \<longrightarrow>
      map inst_subscription_parameters (resp11_subscription_instances resp) =
        (if action r11 = ACT_SUBSCRIBE then
           [Some \<lparr>prp_response_type = Some (sp_response_type (subscription_parameters r11)),
                  prp_content_bindings =
                    get_matching_bindings coll
                      (sp_content_bindings (subscription_parameters r11))\<rparr>]
         else
           (case fst (lookup_subscription svc (subscription_id r11)) of
              Some sub \<Rightarrow> [sub_params sub]
            | None \<Rightarrow>
                if action r11 = ACT_STATUS then map sub_params (subscriptions svc)
                else [None])))
   \<and> (action r11 \<in> {ACT_UNSUBSCRIBE, ACT_PAUSE, ACT_RESUME, ACT_STATUS}
      \<and> subscription_id r11 = Some sid \<and> sid \<noteq> []
      \<and> fst (get_subscription svc sid) = Some sub
      \<and> fst (get_collection svc (collection_name r11)) = Some coll
      \<and> sub_collection_id sub = Some (coll_id coll) \<longrightarrow>
      (\<exists>resp. fst (handle_message11 g svc r11) = Inr resp
         \<and> map inst_subscription_parameters (resp11_subscription_instances resp) =
             [sub_params sub]))
   \<and> (action r11 = ACT_SUBSCRIBE \<and> \<not> truthy (subscription_id r11)
      \<and> fst (get_collection svc (collection_name r11)) = Some coll
      \<and> get_matching_bindings coll (sp_content_bindings (subscription_parameters r11)) \<noteq> [] \<longrightarrow>
      (\<exists>resp. fst (handle_message11 g svc r11) = Inr resp
         \<and> map inst_subscription_parameters (resp11_subscription_instances resp) =
             [Some \<lparr>prp_response_type = Some (sp_response_type (subscription_parameters r11)),
                    prp_content_bindings =
                      get_matching_bindings coll
                        (sp_content_bindings (subscription_parameters r11))\<rparr>]))
   \<and> (fst (handle_message10 g svc r10) = Inr resp10 \<longrightarrow>
      (\<forall>inst \<in> set (resp10_subscription_instances resp10).
         inst_subscription_parameters inst = None))"
proof (intro conjI impI ballI)
  assume "fst (handle_message11 g svc r11) = Inr resp"
  from handle_message11_success [OF this]
  show "\<exists>act coll result.
          map_of ACTIONS (action r11) = Some act
        \<and> fst (get_collection svc (collection_name r11)) = Some coll
        \<and> fst (act (ManageCollectionSubscriptionRequest r11)
                 (called (snd (lookup_subscription svc (subscription_id r11)))
                    (GetCollection (collection_name r11)))
                 coll (fst (lookup_subscription svc (subscription_id r11))) 11) = Inr result
        \<and> map inst_subscription_parameters (resp11_subscription_instances resp) =
            map sub_params (as_results result)"
    by blast
next
  assume a: "fst (handle_message11 g svc r11) = Inr resp
        \<and> fst (get_collection svc (collection_name r11)) = Some coll"
  define subscription where "subscription = fst (lookup_subscription svc (subscription_id r11))"
  define svc2 where "svc2 = called (snd (lookup_subscription svc (subscription_id r11)))
                              (GetCollection (collection_name r11))"
  have f2: "subscriptions svc2 = subscriptions svc"
    by (simp add: svc2_def)
  from a handle_message11_success [of g svc r11 resp]
  obtain act result
    where m: "map_of ACTIONS (action r11) = Some act"
      and ok: "validate_request11 r11 subscription = Inr ()"
      and r: "fst (act (ManageCollectionSubscriptionRequest r11) svc2 coll subscription 11) =
                Inr result"
      and p: "map inst_subscription_parameters (resp11_subscription_instances resp) =
                map sub_params (as_results result)"
    unfolding subscription_def svc2_def by auto
  from ok have legal: "action r11 \<in> set ACT_TYPES_11"
    and present: "subscription = None \<Longrightarrow> action r11 \<noteq> ACT_PAUSE \<and> action r11 \<noteq> ACT_RESUME"
    by (simp_all add: validate_request11_ok)
  from legal consider "action r11 = ACT_SUBSCRIBE" | "action r11 = ACT_UNSUBSCRIBE"
    | "action r11 = ACT_PAUSE" | "action r11 = ACT_RESUME" | "action r11 = ACT_STATUS"
    by auto
  then have "map sub_params (as_results result) =
        (if action r11 = ACT_SUBSCRIBE then
           [Some \<lparr>prp_response_type = Some (sp_response_type (subscription_parameters r11)),
                  prp_content_bindings =
                    get_matching_bindings coll
                      (sp_content_bindings (subscription_parameters r11))\<rparr>]
         else
           (case subscription of
              Some sub \<Rightarrow> [sub_params sub]
            | None \<Rightarrow>
                if action r11 = ACT_STATUS then map sub_params (subscriptions svc)
                else [None]))"
  proof cases
    case 1
    with m have "act = (\<lambda>req svc coll subscription version. action_subscribe req svc coll version)"
      by (simp add: ACTIONS_lookup)
    with r 1 show ?thesis
      by (auto simp add: action_subscribe_11 create_subscription_eq split: if_splits)
  next
    case 2
    with m have "act = (\<lambda>req svc coll subscription version. action_unsubscribe req svc subscription)"
      by (simp add: ACTIONS_lookup)
    with r 2 show ?thesis
      by (cases subscription)
        (auto simp add: action_unsubscribe_None action_unsubscribe_Some)
  next
    case 3
    with present obtain sub where s: "subscription = Some sub"
      by (cases subscription) auto
    from 3 m have "act = (\<lambda>req svc coll subscription version. action_pause svc subscription)"
      by (simp add: ACTIONS_lookup)
    with r 3 s show ?thesis
      by (auto simp add: action_pause_Some split: if_splits)
  next
    case 4
    with present obtain sub where s: "subscription = Some sub"
      by (cases subscription) auto
    from 4 m have "act = (\<lambda>req svc coll subscription version. action_resume svc subscription)"
      by (simp add: ACTIONS_lookup)
    with r 4 s show ?thesis
      by (auto simp add: action_resume_Some split: if_splits)
  next
    case 5
    with m have "act = (\<lambda>req svc coll subscription version. action_status svc subscription)"
      by (simp add: ACTIONS_lookup)
    with r 5 f2 show ?thesis
      by (cases subscription) (auto simp add: action_status_eq)
  qed
  with p show "map inst_subscription_parameters (resp11_subscription_instances resp) =
        (if action r11 = ACT_SUBSCRIBE then
           [Some \<lparr>prp_response_type = Some (sp_response_type (subscription_parameters r11)),
                  prp_content_bindings =
                    get_matching_bindings coll
                      (sp_content_bindings (subscription_parameters r11))\<rparr>]
         else
           (case fst (lookup_subscription svc (subscription_id r11)) of
              Some sub \<Rightarrow> [sub_params sub]
            | None \<Rightarrow>
                if action r11 = ACT_STATUS then map sub_params (subscriptions svc)
                else [None]))"
    unfolding subscription_def by simp
next
  assume a: "action r11 \<in> {ACT_UNSUBSCRIBE, ACT_PAUSE, ACT_RESUME, ACT_STATUS}
      \<and> subscription_id r11 = Some sid \<and> sid \<noteq> []
      \<and> fst (get_subscription svc sid) = Some sub
      \<and> fst (get_collection svc (collection_name r11)) = Some coll
      \<and> sub_collection_id sub = Some (coll_id coll)"
  then have l: "lookup_subscription svc (subscription_id r11) =
      (Some sub, called svc (GetSubscription sid))"
    by (simp add: lookup_subscription_Some prod_eq_iff)
  from a have v: "validate_request11 r11 (Some sub) = Inr ()"
    by (auto simp add: validate_request11_ok)
  note h = handle_message11_valid [OF l v, of _ g]
  from a consider "action r11 = ACT_UNSUBSCRIBE" | "action r11 = ACT_PAUSE"
    | "action r11 = ACT_RESUME" | "action r11 = ACT_STATUS"
    by auto
  then show "\<exists>resp. fst (handle_message11 g svc r11) = Inr resp
         \<and> map inst_subscription_parameters (resp11_subscription_instances resp) =
             [sub_params sub]"
  proof cases
    case 1
    then have m: "map_of ACTIONS (action r11) =
        Some (\<lambda>req svc coll subscription version. action_unsubscribe req svc subscription)"
      by (simp add: ACTIONS_lookup)
    from a show ?thesis unfolding h [OF m]
      by (simp add: action_unsubscribe_Some collection_mismatch_def
          subscription_to_subscription_instance_def)
  next
    case 2
    then have m: "map_of ACTIONS (action r11) =
        Some (\<lambda>req svc coll subscription version. action_pause svc subscription)"
      by (simp add: ACTIONS_lookup)
    from a show ?thesis unfolding h [OF m]
      by (simp add: action_pause_Some collection_mismatch_def
          subscription_to_subscription_instance_def)
  next
    case 3
    then have m: "map_of ACTIONS (action r11) =
        Some (\<lambda>req svc coll subscription version. action_resume svc subscription)"
      by (simp add: ACTIONS_lookup)
    from a show ?thesis unfolding h [OF m]
      by (simp add: action_resume_Some collection_mismatch_def
          subscription_to_subscription_instance_def)
  next
    case 4
    then have m: "map_of ACTIONS (action r11) =
        Some (\<lambda>req svc coll subscription version. action_status svc subscription)"
      by (simp add: ACTIONS_lookup)
    from a show ?thesis unfolding h [OF m]
      by (simp add: action_status_eq collection_mismatch_def
          subscription_to_subscription_instance_def)
  qed
next
  assume a: "action r11 = ACT_SUBSCRIBE \<and> \<not> truthy (subscription_id r11)
      \<and> fst (get_collection svc (collection_name r11)) = Some coll
      \<and> get_matching_bindings coll (sp_content_bindings (subscription_parameters r11)) \<noteq> []"
  then have l: "lookup_subscription svc (subscription_id r11) = (None, svc)"
    by (simp add: lookup_subscription_falsy)
  from a have v: "validate_request11 r11 None = Inr ()"
    by (simp add: validate_request11_ok)
  from a have m: "map_of ACTIONS (action r11) =
      Some (\<lambda>req svc coll subscription version. action_subscribe req svc coll version)"
    by (simp add: ACTIONS_lookup)
  from a show "\<exists>resp. fst (handle_message11 g svc r11) = Inr resp
         \<and> map inst_subscription_parameters (resp11_subscription_instances resp) =
             [Some \<lparr>prp_response_type = Some (sp_response_type (subscription_parameters r11)),
                    prp_content_bindings =
                      get_matching_bindings coll
                        (sp_content_bindings (subscription_parameters r11))\<rparr>]"
    unfolding handle_message11_valid [OF l v m]
    by (simp add: action_subscribe_11 create_subscription_eq collection_mismatch_def
        subscription_to_subscription_instance_def)
next
  fix inst
  assume "fst (handle_message10 g svc r10) = Inr resp10"
    and i: "inst \<in> set (resp10_subscription_instances resp10)"
  from handle_message10_success [OF this(1)] i
  show "inst_subscription_parameters inst = None"
    by simp
qed

theorem instance_parameters_witness:
  "(\<exists>resp. fst (handle_message11 ''g'' service_A (request11_of ACT_STATUS None ''X'' [])) =
       Inr resp
     \<and> map inst_subscription_parameters (resp11_subscription_instances resp) =
         [Some \<lparr>prp_response_type = Some ''FULL'', prp_content_bindings = [''B'']\<rparr>,
          Some \<lparr>prp_response_type = Some ''FULL'', prp_content_bindings = [''B'']\<rparr>,
          Some \<lparr>prp_response_type = Some ''FULL'', prp_content_bindings = [''B'']\<rparr>]
     \<and> (\<exists>result. map inst_subscription_parameters (resp11_subscription_instances resp) =
           map sub_params (as_results result)))
   \<and> (\<exists>resp. fst (handle_message11 ''g'' service_A (request11_of ACT_SUBSCRIBE None ''X'' [])) =
       Inr resp
     \<and> map inst_subscription_parameters (resp11_subscription_instances resp) =
         [Some \<lparr>prp_response_type = Some ''FULL'', prp_content_bindings = []\<rparr>])
   \<and> (\<exists>resp. fst (handle_message11 ''g'' service_A (request11_of ACT_STATUS (Some ''s2'') ''X'' [])) =
       Inr resp
     \<and> map inst_subscription_parameters (resp11_subscription_instances resp) =
         [Some \<lparr>prp_response_type = Some ''FULL'', prp_content_bindings = [''B'']\<rparr>])
   \<and> (\<exists>resp. fst (handle_message11 ''g'' service_A
                (request11_of ACT_SUBSCRIBE None ''X'' [''B'', ''C''])) = Inr resp
     \<and> map inst_subscription_parameters (resp11_subscription_instances resp) =
         [Some \<lparr>prp_response_type = Some ''FULL'', prp_content_bindings = [''B'']\<rparr>])
   \<and> list_all (\<lambda>inst. inst_subscription_parameters inst = None)
       (resp10_subscription_instances
          \<lparr>resp10_message_id = ''g'', resp10_in_response_to = ''m1'',
           resp10_feed_name = ''X'', resp10_message = Some ''hello'',
           resp10_subscription_instances =
             [\<lparr>inst_subscription_id = Some ''zz'', inst_status = None,
               inst_subscription_parameters = None,
               inst_poll_instances = [(''http'', ''/poll'')]\<rparr>]\<rparr>)"
proof -
  let ?p = "Some \<lparr>prp_response_type = Some ''FULL'', prp_content_bindings = [''B'']\<rparr>"
  let ?all =
    "\<lparr>resp11_message_id = ''g'', resp11_in_response_to = ''m1'',
      resp11_collection_name = ''X'', resp11_message = Some ''hello'',
      resp11_subscription_instances =
        [\<lparr>inst_subscription_id = Some ''s1'', inst_status = Some ACTIVE,
          inst_subscription_parameters = ?p, inst_poll_instances = [(''http'', ''/poll'')]\<rparr>,
         \<lparr>inst_subscription_id = Some ''s2'', inst_status = Some PAUSED,
          inst_subscription_parameters = ?p, inst_poll_instances = [(''http'', ''/poll'')]\<rparr>,
         \<lparr>inst_subscription_id = Some ''s3'', inst_status = Some UNSUBSCRIBED,
          inst_subscription_parameters = ?p,
          inst_poll_instances = [(''http'', ''/poll'')]\<rparr>]\<rparr>"
  let ?new =
    "\<lparr>resp11_message_id = ''g'', resp11_in_response_to = ''m1'',
      resp11_collection_name = ''X'', resp11_message = Some ''hello'',
      resp11_subscription_instances =
        [\<lparr>inst_subscription_id = Some ''new'', inst_status = Some ACTIVE,
          inst_subscription_parameters =
            Some \<lparr>prp_response_type = Some ''FULL'', prp_content_bindings = []\<rparr>,
          inst_poll_instances = [(''http'', ''/poll'')]\<rparr>]\<rparr>"
  have c: "fst (get_collection service_A ''X'') = Some collection_X"
    by (rule service_A_collections)
  have s: "fst (handle_message11 ''g'' service_A (request11_of ACT_STATUS None ''X'' [])) =
             Inr ?all"
    by (simp add: handle_message11_def lookup_subscription_def validate_request11_def
      retrieve_collection_def get_collection_def collection_mismatch_def ACTIONS_def
      action_status_def get_subscriptions_def subscription_to_subscription_instance_def
      get_polling_services_def called_def service_A_def request11_of_def
      collection_X_def collection_Y_def stored_def Let_def)
  have n: "fst (handle_message11 ''g'' service_A (request11_of ACT_SUBSCRIBE None ''X'' [])) =
             Inr ?new"
    by (simp add: handle_message11_def lookup_subscription_def validate_request11_def
      retrieve_collection_def get_collection_def collection_mismatch_def ACTIONS_def
      action_subscribe_def create_subscription_def subscription_to_subscription_instance_def
      get_polling_services_def called_def service_A_def request11_of_def
      collection_X_def collection_Y_def stored_def Let_def)
  have hs: "fst (handle_message11 ''g'' service_A (request11_of ACT_STATUS None ''X'' [])) =
              Inr ?all
            \<and> fst (get_collection service_A
                     (collection_name (request11_of ACT_STATUS None ''X'' []))) =
                Some collection_X"
    using s c by simp
  have hn: "fst (handle_message11 ''g'' service_A (request11_of ACT_SUBSCRIBE None ''X'' [])) =
              Inr ?new
            \<and> fst (get_collection service_A
                     (collection_name (request11_of ACT_SUBSCRIBE None ''X'' []))) =
                Some collection_X"
    using n c by simp
  have h1: "action (request11_of ACT_STATUS (Some ''s2'') ''X'' [])
        \<in> {ACT_UNSUBSCRIBE, ACT_PAUSE, ACT_RESUME, ACT_STATUS}
      \<and> subscription_id (request11_of ACT_STATUS (Some ''s2'') ''X'' []) = Some ''s2''
      \<and> ''s2'' \<noteq> []
      \<and> fst (get_subscription service_A ''s2'') = Some (stored ''s2'' PAUSED)
      \<and> fst (get_collection service_A
               (collection_name (request11_of ACT_STATUS (Some ''s2'') ''X'' []))) =
          Some collection_X
      \<and> sub_collection_id (stored ''s2'' PAUSED) = Some (coll_id collection_X)"
    by (simp add: service_A_lookup service_A_collections)
  have h2: "action (request11_of ACT_SUBSCRIBE None ''X'' [''B'', ''C'']) = ACT_SUBSCRIBE
      \<and> \<not> truthy (subscription_id (request11_of ACT_SUBSCRIBE None ''X'' [''B'', ''C'']))
      \<and> fst (get_collection service_A
               (collection_name (request11_of ACT_SUBSCRIBE None ''X'' [''B'', ''C'']))) =
          Some collection_X
      \<and> get_matching_bindings collection_X
          (sp_content_bindings (subscription_parameters
             (request11_of ACT_SUBSCRIBE None ''X'' [''B'', ''C'']))) \<noteq> []"
    by (simp add: service_A_collections get_matching_bindings_def)
  have h3: "fst (handle_message10 ''g'' service_A
                   (request10_of ACT_UNSUBSCRIBE (Some ''zz'') ''X'')) =
      Inr \<lparr>resp10_message_id = ''g'', resp10_in_response_to = ''m1'',
           resp10_feed_name = ''X'', resp10_message = Some ''hello'',
           resp10_subscription_instances =
             [\<lparr>inst_subscription_id = Some ''zz'', inst_status = None,
               inst_subscription_parameters = None,
               inst_poll_instances = [(''http'', ''/poll'')]\<rparr>]\<rparr>"
    by (simp add: handle_message10_def lookup_subscription_def get_subscription_def
      validate_request10_def retrieve_collection_def get_collection_def
      collection_mismatch_def ACTIONS_def action_unsubscribe_def
      subscription_to_subscription_instance_def
      get_polling_services_def called_def service_A_def request10_of_def
      collection_X_def collection_Y_def stored_def Let_def)
  from instance_parameters [THEN conjunct1, THEN mp, OF s]
  obtain result
    where "map inst_subscription_parameters (resp11_subscription_instances ?all) =
             map sub_params (as_results result)"
    by (elim exE conjE)
  then have g1: "\<exists>result. map inst_subscription_parameters (resp11_subscription_instances ?all) =
              map sub_params (as_results result)"
    by (rule exI)
  from instance_parameters [THEN conjunct2, THEN conjunct1, THEN mp, OF hs]
  have g2: "map inst_subscription_parameters (resp11_subscription_instances ?all) =
              [?p, ?p, ?p]"
    by (simp add: lookup_subscription_def stored_def)
  from instance_parameters [THEN conjunct2, THEN conjunct1, THEN mp, OF hn]
  have g3: "map inst_subscription_parameters (resp11_subscription_instances ?new) =
              [Some \<lparr>prp_response_type = Some ''FULL'', prp_content_bindings = []\<rparr>]"
    by (simp add: get_matching_bindings_def)
  note g4 = instance_parameters
         [where ?r11.0 = "request11_of ACT_STATUS (Some ''s2'') ''X'' []" and svc = service_A
            and sid = "''s2''" and sub = "stored ''s2'' PAUSED" and coll = collection_X
            and g = "''g''",
          THEN conjunct2, THEN conjunct2, THEN conjunct1, THEN mp, OF h1]
  note g5 = instance_parameters
         [where ?r11.0 = "request11_of ACT_SUBSCRIBE None ''X'' [''B'', ''C'']"
            and svc = service_A and coll = collection_X and g = "''g''",
          THEN conjunct2, THEN conjunct2, THEN conjunct2, THEN conjunct1, THEN mp, OF h2]
  note g6 = instance_parameters
         [THEN conjunct2, THEN conjunct2, THEN conjunct2, THEN conjunct2, THEN mp, OF h3]
  have a1: "\<exists>resp. fst (handle_message11 ''g'' service_A (request11_of ACT_STATUS None ''X'' [])) =
       Inr resp
     \<and> map inst_subscription_parameters (resp11_subscription_instances resp) = [?p, ?p, ?p]
     \<and> (\<exists>result. map inst_subscription_parameters (resp11_subscription_instances resp) =
           map sub_params (as_results result))"
    by (rule exI [of _ ?all]) (intro conjI s g1 g2)
  have a2: "\<exists>resp. fst (handle_message11 ''g'' service_A (request11_of ACT_SUBSCRIBE None ''X'' [])) =
       Inr resp
     \<and> map inst_subscription_parameters (resp11_subscription_instances resp) =
         [Some \<lparr>prp_response_type = Some ''FULL'', prp_content_bindings = []\<rparr>]"
    by (rule exI [of _ ?new]) (intro conjI n g3)
  from g4 have a3: "\<exists>resp. fst (handle_message11 ''g'' service_A
                (request11_of ACT_STATUS (Some ''s2'') ''X'' [])) = Inr resp
     \<and> map inst_subscription_parameters (resp11_subscription_instances resp) = [?p]"
    by (simp add: stored_def)
  from g5 have a4: "\<exists>resp. fst (handle_message11 ''g'' service_A
                (request11_of ACT_SUBSCRIBE None ''X'' [''B'', ''C''])) = Inr resp
     \<and> map inst_subscription_parameters (resp11_subscription_instances resp) = [?p]"
    by (simp add: get_matching_bindings_def)
  from g6 have a5: "list_all (\<lambda>inst. inst_subscription_parameters inst = None)
       (resp10_subscription_instances
          \<lparr>resp10_message_id = ''g'', resp10_in_response_to = ''m1'',
           resp10_feed_name = ''X'', resp10_message = Some ''hello'',
           resp10_subscription_instances =
             [\<lparr>inst_subscription_id = Some ''zz'', inst_status = None,
               inst_subscription_parameters = None,
               inst_poll_instances = [(''http'', ''/poll'')]\<rparr>]\<rparr>)"
    by (simp add: list_all_iff)
  from a1 a2 a3 a4 a5 show ?thesis
    by (intro conjI)
qed

end
